theory Spec2Isabelle
  imports Complex_Main
begin

section \<open>Numbers, dates and strings of the host language\<close>

text \<open>
  The sources are TypeScript (\<^verbatim>\<open>src/lib/timeSync.ts\<close> and the script and template of
  \<^verbatim>\<open>src/lib/components/ColorBars.svelte\<close>).  A JavaScript number is modelled as an exact
  \<^typ>\<open>real\<close>: the rounding of IEEE doubles is outside the model, and so are \<^verbatim>\<open>NaN\<close> and
  the infinities, except in the geometry of a frame, where a value that is not finite is
  explicit.  The time value of a \<^verbatim>\<open>Date\<close> is an integral number of milliseconds since the
  epoch and is modelled as an \<^typ>\<open>int\<close>; only valid dates are modelled.
\<close>

text \<open>\<^verbatim>\<open>new Date(x)\<close> keeps the integral part of \<^verbatim>\<open>x\<close> (truncation towards zero).\<close>

definition newDate :: "real \<Rightarrow> int" where
  "newDate x = (if x < 0 then \<lceil>x\<rceil> else \<lfloor>x\<rfloor>)"

text \<open>The remainder operator \<^verbatim>\<open>%\<close> on integral operands: the sign follows the dividend.\<close>

definition jsRem :: "int \<Rightarrow> int \<Rightarrow> int" where
  "jsRem a n = sgn a * (\<bar>a\<bar> mod \<bar>n\<bar>)"

text \<open>\<^verbatim>\<open>Math.round\<close> rounds halves towards plus infinity.\<close>

definition Math_round :: "real \<Rightarrow> int" where
  "Math_round x = \<lfloor>x + 1 / 2\<rfloor>"

section \<open>Time synchronisation (timeSync.ts)\<close>

record TimeData =
  serverTime :: int
  offset :: real
  lastSync :: int
  synced :: bool

text \<open>The module-level variables \<^verbatim>\<open>timeData\<close> and \<^verbatim>\<open>syncInProgress\<close>.\<close>

record SyncModule =
  timeData :: TimeData
  syncInProgress :: bool

text \<open>
  What the network does to one call of \<^verbatim>\<open>syncTime\<close>: the \<^verbatim>\<open>fetch\<close> promise rejects, the
  response arrives with \<^verbatim>\<open>ok\<close> false, \<^verbatim>\<open>response.json()\<close> rejects, or the body parses and
  \<^verbatim>\<open>new Date(data.utc_datetime).getTime()\<close> is the given time value.
\<close>

datatype FetchOutcome = FetchRejected | ResponseNotOk | JsonRejected | JsonParsed int

text \<open>The values that the four reads of the local clock return during one call.\<close>

record SyncReadings =
  requestStart :: int
  requestEnd :: int
  localTimestamp :: int
  lastSyncNow :: int

text \<open>
  The body of the \<^verbatim>\<open>try\<close> block.  \<open>Inl\<close> is a thrown error or a rejected promise, which
  the \<^verbatim>\<open>catch\<close> clause receives; \<open>Inr\<close> is the record assigned to \<^verbatim>\<open>timeData\<close>.
\<close>

datatype SyncError = FetchFailed | TimeSyncFailed | JsonFailed

definition syncTime_try :: "FetchOutcome \<Rightarrow> SyncReadings \<Rightarrow> SyncError + TimeData" where
  "syncTime_try outcome rd =
     (case outcome of
        FetchRejected \<Rightarrow> Inl FetchFailed
      | ResponseNotOk \<Rightarrow> Inl TimeSyncFailed
      | JsonRejected \<Rightarrow> Inl JsonFailed
      | JsonParsed utc_datetime \<Rightarrow>
          (let latency = (real_of_int (requestEnd rd) - real_of_int (requestStart rd)) / 2;
               serverTimestamp = real_of_int utc_datetime + latency
           in Inr \<lparr> serverTime = newDate serverTimestamp,
                    offset = serverTimestamp - real_of_int (localTimestamp rd),
                    lastSync = lastSyncNow rd,
                    synced = True \<rparr>))"

text \<open>
  \<^verbatim>\<open>syncTime\<close> is asynchronous.  Its synchronous prefix sets the flag; the rest runs when
  the network has answered, and ends in the \<^verbatim>\<open>finally\<close> clause.  The \<^verbatim>\<open>catch\<close> clause
  assigns the single field \<^verbatim>\<open>timeData.synced\<close>.
\<close>

definition syncTime_begin :: "SyncModule \<Rightarrow> SyncModule" where
  "syncTime_begin m = m\<lparr> syncInProgress := True \<rparr>"

definition syncTime_settle :: "FetchOutcome \<Rightarrow> SyncReadings \<Rightarrow> SyncModule \<Rightarrow> SyncModule" where
  "syncTime_settle outcome rd m =
     (case syncTime_try outcome rd of
        Inr td \<Rightarrow> \<lparr> timeData = td, syncInProgress = False \<rparr>
      | Inl err \<Rightarrow> \<lparr> timeData = (timeData m)\<lparr> synced := False \<rparr>, syncInProgress = False \<rparr>)"

text \<open>One whole call; the promise resolves to the \<open>timeData\<close> of the result.\<close>

definition syncTime :: "FetchOutcome \<Rightarrow> SyncReadings \<Rightarrow> SyncModule \<Rightarrow> SyncModule" where
  "syncTime outcome rd m =
     (if syncInProgress m then m else syncTime_settle outcome rd (syncTime_begin m))"

text \<open>
  The local clock: \<^verbatim>\<open>Date.now()\<close> is an effect.  The clock holds the values that the
  successive reads return and counts the reads made so far.
\<close>

record Clock =
  readings :: "nat \<Rightarrow> int"
  reads :: nat

definition Date_now :: "Clock \<Rightarrow> int \<times> Clock" where
  "Date_now c = (readings c (reads c), c\<lparr> reads := Suc (reads c) \<rparr>)"

definition getSyncedTime :: "TimeData \<Rightarrow> Clock \<Rightarrow> int \<times> Clock" where
  "getSyncedTime td c =
     (case Date_now c of (now, c') \<Rightarrow> (newDate (real_of_int now + offset td), c'))"

section \<open>Date fields and number formatting\<close>

text \<open>The field accessors of \<^verbatim>\<open>Date\<close>, as ECMAScript defines them on the time value.\<close>

definition getUTCHours :: "int \<Rightarrow> int" where
  "getUTCHours t = (t div 3600000) mod 24"

definition getUTCMinutes :: "int \<Rightarrow> int" where
  "getUTCMinutes t = (t div 60000) mod 60"

definition getUTCSeconds :: "int \<Rightarrow> int" where
  "getUTCSeconds t = (t div 1000) mod 60"

definition getUTCMilliseconds :: "int \<Rightarrow> int" where
  "getUTCMilliseconds t = t mod 1000"

text \<open>
  The local accessors read the same fields of the local time, which is the time value
  shifted by the zone adjustment of the host (a parameter: it depends on the machine).
\<close>

definition getHours :: "(int \<Rightarrow> int) \<Rightarrow> int \<Rightarrow> int" where
  "getHours localTZA t = getUTCHours (t + localTZA t)"

definition getMinutes :: "(int \<Rightarrow> int) \<Rightarrow> int \<Rightarrow> int" where
  "getMinutes localTZA t = getUTCMinutes (t + localTZA t)"

definition getSeconds :: "(int \<Rightarrow> int) \<Rightarrow> int \<Rightarrow> int" where
  "getSeconds localTZA t = getUTCSeconds (t + localTZA t)"

definition getMilliseconds :: "(int \<Rightarrow> int) \<Rightarrow> int \<Rightarrow> int" where
  "getMilliseconds localTZA t = getUTCMilliseconds (t + localTZA t)"

text \<open>\<^verbatim>\<open>d.setUTCHours(h, m, s, ms)\<close> keeps the day of \<^verbatim>\<open>d\<close> and replaces the time in it.\<close>

definition setUTCHours :: "int \<Rightarrow> int \<Rightarrow> int \<Rightarrow> int \<Rightarrow> int \<Rightarrow> int" where
  "setUTCHours t h m s ms =
     (t div 86400000) * 86400000 + (h * 3600000 + m * 60000 + s * 1000 + ms)"

text \<open>\<^verbatim>\<open>toString()\<close> of an integral number, in decimal.\<close>

definition digitChar :: "nat \<Rightarrow> char" where
  "digitChar d = ''0123456789'' ! d"

fun natToString :: "nat \<Rightarrow> string" where
  "natToString n = (if n < 10 then [digitChar n] else natToString (n div 10) @ [digitChar (n mod 10)])"

definition intToString :: "int \<Rightarrow> string" where
  "intToString i = (if i < 0 then CHR ''-'' # natToString (nat (- i)) else natToString (nat i))"

text \<open>\<^verbatim>\<open>s.padStart(n, c)\<close> for a pad string of one character.\<close>

definition padStart :: "string \<Rightarrow> nat \<Rightarrow> char \<Rightarrow> string" where
  "padStart s n c = (if n \<le> length s then s else replicate (n - length s) c @ s)"

section \<open>The component (ColorBars.svelte)\<close>

text \<open>
  The model follows the revision of the component that has the spinner and the sync QR
  beacon and moves the ball by the time elapsed between frames.
\<close>

subsection \<open>Timecode\<close>

definition getTimecode :: "(int \<Rightarrow> int) \<Rightarrow> int \<Rightarrow> bool \<Rightarrow> string" where
  "getTimecode localTZA date useLocal =
     (let hours = padStart (intToString (if useLocal then getHours localTZA date
                                         else getUTCHours date)) 2 CHR ''0'';
          minutes = padStart (intToString (if useLocal then getMinutes localTZA date
                                           else getUTCMinutes date)) 2 CHR ''0'';
          seconds = padStart (intToString (if useLocal then getSeconds localTZA date
                                           else getUTCSeconds date)) 2 CHR ''0'';
          ms = (if useLocal then getMilliseconds localTZA date else getUTCMilliseconds date);
          frames = padStart (intToString \<lfloor>(real_of_int ms / 1000) * 30\<rfloor>) 2 CHR ''0''
      in hours @ '':'' @ minutes @ '':'' @ seconds @ '':'' @ frames)"

subsection \<open>Inputs\<close>

text \<open>
  What the browser and the libraries provide and the component only calls: the ISO
  rendering of a date, the rendering of a number inside a template string, the QR encoder
  with the canvas behind \<^verbatim>\<open>generateSyncDataUrl\<close> (the data URL and the module count), the zone
  adjustment of the host, and the fields of an instant in a named zone as
  \<^verbatim>\<open>Intl.DateTimeFormat\<close> reports them (hour, minute, second, fractional second); an unknown
  zone makes the constructor throw, which is \<open>None\<close>.
\<close>

record Platform =
  toISOString :: "int \<Rightarrow> string"
  numberToString :: "real \<Rightarrow> string"
  qrEncode :: "string \<Rightarrow> string \<times> nat"
  localTZA :: "int \<Rightarrow> int"
  zoneFields :: "string \<Rightarrow> int \<Rightarrow> (int \<times> int \<times> int \<times> int) option"

record RemoteTimezone =
  tz_label :: string
  timezone :: string

text \<open>The properties of the component that the script and the bar rows read.\<close>

record Props =
  width :: real
  height :: real
  showBall :: bool
  showSpinner :: bool
  showSyncQr :: bool
  showShimmer :: bool
  showUtc :: bool
  showLocal :: bool
  remoteTimezone :: "RemoteTimezone option"

text \<open>The properties when the caller passes only the two dimensions: the defaults of the script.\<close>

definition defaultProps :: "real \<Rightarrow> real \<Rightarrow> Props" where
  "defaultProps w h =
     \<lparr> width = w, height = h, showBall = False, showSpinner = False, showSyncQr = False,
       showShimmer = False, showUtc = True, showLocal = False, remoteTimezone = None \<rparr>"

subsection \<open>Bar rows\<close>

record Bar =
  bar_color :: string
  bar_name :: string

record Segment =
  seg_color :: string
  seg_name :: string
  seg_width :: real

definition mainBars :: "Bar list" where
  "mainBars =
     [\<lparr> bar_color = ''#b4b4b4'', bar_name = ''75% White'' \<rparr>,
      \<lparr> bar_color = ''#b4b400'', bar_name = ''75% Yellow'' \<rparr>,
      \<lparr> bar_color = ''#00b4b4'', bar_name = ''75% Cyan'' \<rparr>,
      \<lparr> bar_color = ''#00b400'', bar_name = ''75% Green'' \<rparr>,
      \<lparr> bar_color = ''#b400b4'', bar_name = ''75% Magenta'' \<rparr>,
      \<lparr> bar_color = ''#b40000'', bar_name = ''75% Red'' \<rparr>,
      \<lparr> bar_color = ''#0000b4'', bar_name = ''75% Blue'' \<rparr>]"

definition castellations :: "Bar list" where
  "castellations =
     [\<lparr> bar_color = ''#0000b4'', bar_name = ''Blue'' \<rparr>,
      \<lparr> bar_color = ''#000000'', bar_name = ''Black'' \<rparr>,
      \<lparr> bar_color = ''#b400b4'', bar_name = ''Magenta'' \<rparr>,
      \<lparr> bar_color = ''#000000'', bar_name = ''Black'' \<rparr>,
      \<lparr> bar_color = ''#00b4b4'', bar_name = ''Cyan'' \<rparr>,
      \<lparr> bar_color = ''#000000'', bar_name = ''Black'' \<rparr>,
      \<lparr> bar_color = ''#b4b4b4'', bar_name = ''75% White'' \<rparr>]"

definition pluGeRow :: "Segment list" where
  "pluGeRow =
     [\<lparr> seg_color = ''#00214c'', seg_name = ''-I'', seg_width = 1 \<rparr>,
      \<lparr> seg_color = ''#ffffff'', seg_name = ''100% White'', seg_width = 1 \<rparr>,
      \<lparr> seg_color = ''#320042'', seg_name = ''+Q'', seg_width = 1 \<rparr>,
      \<lparr> seg_color = ''#000000'', seg_name = ''Black'', seg_width = 1 \<rparr>,
      \<lparr> seg_color = ''#000000'', seg_name = ''Superblack (3.5%)'', seg_width = 1 / 2 \<rparr>,
      \<lparr> seg_color = ''#0d0d0d'', seg_name = ''Black (7.5%)'', seg_width = 1 \<rparr>,
      \<lparr> seg_color = ''#1a1a1a'', seg_name = ''Light Black (11.5%)'', seg_width = 1 / 2 \<rparr>,
      \<lparr> seg_color = ''#000000'', seg_name = ''Black'', seg_width = 2 \<rparr>]"

definition plugeY :: "Props \<Rightarrow> real" where
  "plugeY p = height p * (75 / 100)"

definition plugeHeight :: "Props \<Rightarrow> real" where
  "plugeHeight p = height p * (25 / 100)"

text \<open>\<^verbatim>\<open>reduce\<close> folds from the left, starting from the given sum.\<close>

definition totalWidthUnits :: real where
  "totalWidthUnits = foldl (\<lambda>sum item. sum + seg_width item) 0 pluGeRow"

definition unitWidth :: "Props \<Rightarrow> real" where
  "unitWidth p = width p / totalWidthUnits"

definition getPlugeX :: "Props \<Rightarrow> nat \<Rightarrow> real" where
  "getPlugeX p index =
     foldl (\<lambda>sum item. sum + seg_width item * (width p / totalWidthUnits)) 0 (take index pluGeRow)"

text \<open>The rectangles that the template emits, in document order.\<close>

record Rect =
  rect_x :: real
  rect_y :: real
  rect_width :: real
  rect_height :: real
  rect_fill :: string

definition backgroundRect :: "Props \<Rightarrow> Rect" where
  "backgroundRect p =
     \<lparr> rect_x = 0, rect_y = 0, rect_width = width p, rect_height = height p, rect_fill = ''#000'' \<rparr>"

definition mainBarRects :: "Props \<Rightarrow> Rect list" where
  "mainBarRects p =
     map (\<lambda>(i, bar). \<lparr> rect_x = (width p / 7) * real i, rect_y = 0,
                        rect_width = width p / 7 + 1, rect_height = height p * (67 / 100),
                        rect_fill = bar_color bar \<rparr>)
         (enumerate 0 mainBars)"

definition castellationRects :: "Props \<Rightarrow> Rect list" where
  "castellationRects p =
     map (\<lambda>(i, bar). \<lparr> rect_x = (width p / 7) * real i, rect_y = height p * (67 / 100),
                        rect_width = width p / 7 + 1, rect_height = height p * (8 / 100),
                        rect_fill = bar_color bar \<rparr>)
         (enumerate 0 castellations)"

definition plugeRects :: "Props \<Rightarrow> Rect list" where
  "plugeRects p =
     map (\<lambda>(i, segment). \<lparr> rect_x = getPlugeX p i, rect_y = plugeY p,
                            rect_width = seg_width segment * unitWidth p + 1,
                            rect_height = plugeHeight p, rect_fill = seg_color segment \<rparr>)
         (enumerate 0 pluGeRow)"

definition barRowRects :: "Props \<Rightarrow> Rect list" where
  "barRowRects p = mainBarRects p @ castellationRects p @ plugeRects p"

subsection \<open>Animation state\<close>

text \<open>
  The variables of the script that \<^verbatim>\<open>updateAnimation\<close> and \<^verbatim>\<open>onMount\<close> assign.
  \<open>animationFrame\<close> is the handle of the last request for an animation frame; the browser
  numbers the requests.  \<open>qrEncodes\<close> is not a variable of the script: it counts the calls
  of \<^verbatim>\<open>generateSyncDataUrl\<close>, whose effect (a canvas and an encoder run) is otherwise lost.
\<close>

record AnimState =
  currentTime :: int
  animationFrame :: nat
  fps :: int
  lastFrameTime :: real
  frameCount :: int
  fpsUpdateTime :: real
  ballX :: real
  ballDirection :: real
  spinnerAngle :: real
  spinnerFlashFrameMs :: real
  spinnerPhaseMs :: real
  qrSize :: nat
  qrToken :: int
  qrLabel :: string
  qrDataUrl :: string
  shimmerX :: real
  qrEncodes :: nat

definition ballRadius :: "Props \<Rightarrow> real" where
  "ballRadius p = min (width p) (height p) * (25 / 1000)"

definition ballY :: "Props \<Rightarrow> real" where
  "ballY p = height p * (67 / 100) / 2"

definition ballSpeed :: "Props \<Rightarrow> real" where
  "ballSpeed p = width p / 2"

definition spinnerCycleMs :: int where
  "spinnerCycleMs = 5000"

definition shimmerSpeed :: "Props \<Rightarrow> real" where
  "shimmerSpeed p = width p / 5"

definition shimmerWidth :: "Props \<Rightarrow> real" where
  "shimmerWidth p = width p * (3 / 10)"

text \<open>The state that the declarations of the script set up; \<open>now\<close> is \<^verbatim>\<open>new Date()\<close>.\<close>

definition initialState :: "int \<Rightarrow> AnimState" where
  "initialState now =
     \<lparr> currentTime = now, animationFrame = 0, fps = 0, lastFrameTime = 0, frameCount = 0,
       fpsUpdateTime = 0, ballX = 0, ballDirection = 1, spinnerAngle = 0,
       spinnerFlashFrameMs = 1000 / 60, spinnerPhaseMs = 0, qrSize = 29, qrToken = 0,
       qrLabel = [], qrDataUrl = [], shimmerX = 0, qrEncodes = 0 \<rparr>"

definition generateSyncDataUrl :: "Platform \<Rightarrow> string \<Rightarrow> string \<times> nat" where
  "generateSyncDataUrl pf payload = qrEncode pf payload"

definition requestAnimationFrame :: "AnimState \<Rightarrow> AnimState" where
  "requestAnimationFrame s = s\<lparr> animationFrame := Suc (animationFrame s) \<rparr>"

definition onMount :: "Platform \<Rightarrow> Props \<Rightarrow> AnimState \<Rightarrow> AnimState" where
  "onMount pf p s =
     (let label = toISOString pf (currentTime s) @ ''|'' @ numberToString pf (width p) @ ''x''
                    @ numberToString pf (height p) @ ''|f00''
      in case generateSyncDataUrl pf label of (dataUrl, qsize) \<Rightarrow>
           requestAnimationFrame
             (s\<lparr> ballX := ballRadius p, qrLabel := label, qrDataUrl := dataUrl, qrSize := qsize,
                 qrEncodes := Suc (qrEncodes s) \<rparr>))"

subsection \<open>The tick\<close>

text \<open>The blocks of \<^verbatim>\<open>updateAnimation\<close>, in the order of the source.\<close>

definition deltaMs_of :: "AnimState \<Rightarrow> real \<Rightarrow> real" where
  "deltaMs_of s timestamp =
     (if lastFrameTime s > 0 then timestamp - lastFrameTime s else 1667 / 100)"

definition fpsBlock :: "real \<Rightarrow> AnimState \<Rightarrow> AnimState" where
  "fpsBlock timestamp s =
     (let s1 = s\<lparr> frameCount := frameCount s + 1 \<rparr>
      in if timestamp - fpsUpdateTime s1 \<ge> 500
         then s1\<lparr> fps := Math_round ((real_of_int (frameCount s1) * 1000)
                                          / (timestamp - fpsUpdateTime s1)),
                   frameCount := 0, fpsUpdateTime := timestamp \<rparr>
         else s1)"

definition ballBlock :: "Props \<Rightarrow> real \<Rightarrow> AnimState \<Rightarrow> AnimState" where
  "ballBlock p deltaMs s =
     (let x = ballX s + ballSpeed p * ballDirection s * (deltaMs / 1000)
      in if x \<ge> width p - ballRadius p
         then s\<lparr> ballX := width p - ballRadius p, ballDirection := - 1 \<rparr>
         else if x \<le> ballRadius p
         then s\<lparr> ballX := ballRadius p, ballDirection := 1 \<rparr>
         else s\<lparr> ballX := x \<rparr>)"

definition spinnerBlock :: "AnimState \<Rightarrow> AnimState" where
  "spinnerBlock s =
     (let phase = jsRem (jsRem (currentTime s) spinnerCycleMs + spinnerCycleMs) spinnerCycleMs
      in s\<lparr> spinnerPhaseMs := real_of_int phase,
            spinnerAngle := (real_of_int phase / real_of_int spinnerCycleMs) * 360 \<rparr>)"

definition qrBlock :: "Platform \<Rightarrow> Props \<Rightarrow> AnimState \<Rightarrow> AnimState" where
  "qrBlock pf p s =
     (let frame = \<lfloor>(real_of_int (getUTCMilliseconds (currentTime s)) / 1000) * 30\<rfloor>;
          nextToken = \<lfloor>real_of_int (currentTime s) / 1000\<rfloor>
      in if nextToken \<noteq> qrToken s
         then (let label = toISOString pf (currentTime s) @ ''|'' @ numberToString pf (width p)
                             @ ''x'' @ numberToString pf (height p) @ ''|f''
                             @ padStart (intToString frame) 2 CHR ''0''
               in case generateSyncDataUrl pf label of (dataUrl, qsize) \<Rightarrow>
                    s\<lparr> qrToken := nextToken, qrLabel := label, qrDataUrl := dataUrl,
                       qrSize := qsize, qrEncodes := Suc (qrEncodes s) \<rparr>)
         else s)"

definition shimmerBlock :: "Props \<Rightarrow> real \<Rightarrow> AnimState \<Rightarrow> AnimState" where
  "shimmerBlock p deltaMs s =
     (let x = shimmerX s + shimmerSpeed p * (deltaMs / 1000)
      in if x > width p then s\<lparr> shimmerX := - shimmerWidth p - height p \<rparr>
         else s\<lparr> shimmerX := x \<rparr>)"

text \<open>
  One call of \<^verbatim>\<open>updateAnimation\<close>.  It runs on the properties and on the \<^verbatim>\<open>timeData\<close> of
  the moment, and threads the local clock through its one call of \<^verbatim>\<open>getSyncedTime\<close>.
\<close>

definition updateAnimation ::
  "Platform \<Rightarrow> Props \<Rightarrow> TimeData \<Rightarrow> real \<Rightarrow> AnimState \<times> Clock \<Rightarrow> AnimState \<times> Clock" where
  "updateAnimation pf p td timestamp sc =
     (case sc of (s, c) \<Rightarrow>
        case getSyncedTime td c of (now, c') \<Rightarrow>
          (let s0 = s\<lparr> currentTime := now \<rparr>;
               deltaMs = deltaMs_of s0 timestamp;
               s1 = fpsBlock timestamp s0;
               s2 = s1\<lparr> spinnerFlashFrameMs := deltaMs, lastFrameTime := timestamp \<rparr>;
               s3 = (if showBall p then ballBlock p deltaMs s2 else s2);
               s4 = (if showSpinner p then spinnerBlock s3 else s3);
               s5 = (if showSyncQr p then qrBlock pf p s4 else s4);
               s6 = (if showShimmer p then shimmerBlock p deltaMs s5 else s5)
           in (requestAnimationFrame s6, c')))"

text \<open>A run of ticks; each has its own properties, \<^verbatim>\<open>timeData\<close> and frame timestamp.\<close>

fun runTicks ::
  "Platform \<Rightarrow> (Props \<times> TimeData \<times> real) list \<Rightarrow> AnimState \<times> Clock \<Rightarrow> AnimState \<times> Clock" where
  "runTicks pf [] sc = sc"
| "runTicks pf ((p, td, timestamp) # ticks) sc =
     runTicks pf ticks (updateAnimation pf p td timestamp sc)"

subsection \<open>Time rows\<close>

text \<open>
  \<^verbatim>\<open>getTimeDisplays\<close>.  Each \<^verbatim>\<open>getTime\<close> closure reads the variable \<^verbatim>\<open>currentTime\<close>, so
  it is a function of it here; the closure of the remote zone throws for an unknown zone.
\<close>

record TimeDisplay =
  td_label :: string
  getTime :: "int \<Rightarrow> int option"
  td_color :: string
  isLocal :: bool

definition remoteGetTime :: "Platform \<Rightarrow> string \<Rightarrow> int \<Rightarrow> int option" where
  "remoteGetTime pf tz t =
     (case zoneFields pf tz t of
        None \<Rightarrow> None
      | Some (h, m, s, ms) \<Rightarrow> Some (setUTCHours t h m s ms))"

definition getTimeDisplays :: "Platform \<Rightarrow> Props \<Rightarrow> TimeDisplay list" where
  "getTimeDisplays pf p =
     (if showUtc p
      then [\<lparr> td_label = ''UTC'', getTime = Some, td_color = ''#22c55e'', isLocal = False \<rparr>]
      else [])
     @ (if showLocal p
        then [\<lparr> td_label = ''LOCAL'', getTime = Some, td_color = ''#3b82f6'', isLocal = True \<rparr>]
        else [])
     @ (case remoteTimezone p of
          None \<Rightarrow> []
        | Some rz \<Rightarrow> [\<lparr> td_label = tz_label rz, getTime = remoteGetTime pf (timezone rz),
                         td_color = ''#eab308'', isLocal = False \<rparr>])"

text \<open>The text of the value column of the time rows, as the template renders it.\<close>

definition timeRows :: "Platform \<Rightarrow> Props \<Rightarrow> AnimState \<Rightarrow> string option list" where
  "timeRows pf p s =
     map (\<lambda>display. map_option (\<lambda>date. getTimecode (localTZA pf) date (isLocal display))
                                 (getTime display (currentTime s)))
         (getTimeDisplays pf p)"

subsection \<open>Runs and observations\<close>

text \<open>The instants that the ticks of a run observe, in order.\<close>

fun instants :: "Clock \<Rightarrow> (Props \<times> TimeData \<times> real) list \<Rightarrow> int list" where
  "instants c [] = []"
| "instants c ((p, td, timestamp) # ticks) =
     (case getSyncedTime td c of (t, c') \<Rightarrow> t # instants c' ticks)"

text \<open>A run in which the properties stay the same.\<close>

definition fixedProps :: "Props \<Rightarrow> (TimeData \<times> real) list \<Rightarrow> (Props \<times> TimeData \<times> real) list" where
  "fixedProps p tts = map (\<lambda>(td, timestamp). (p, td, timestamp)) tts"

text \<open>
  The position that the first statement of the ball block assigns, before the two
  comparisons with the bounds.
\<close>

definition ballAdvance :: "Props \<Rightarrow> real \<Rightarrow> AnimState \<Rightarrow> real" where
  "ballAdvance p deltaMs s = ballX s + ballSpeed p * ballDirection s * (deltaMs / 1000)"

text \<open>The value of \<^verbatim>\<open>timeData\<close> when the module is loaded; \<open>now\<close> is \<^verbatim>\<open>new Date()\<close>.\<close>

definition initialTimeData :: "int \<Rightarrow> TimeData" where
  "initialTimeData now = \<lparr> serverTime = now, offset = 0, lastSync = 0, synced = False \<rparr>"

text \<open>What a tick can change of the QR beacon, with the count of encoder runs.\<close>

definition qrView :: "AnimState \<Rightarrow> int \<times> string \<times> string \<times> nat \<times> nat" where
  "qrView s = (qrToken s, qrLabel s, qrDataUrl s, qrSize s, qrEncodes s)"

subsection \<open>The timecode as the specification words it\<close>

text \<open>
  The specification describes the timecode as \<^verbatim>\<open>HH:MM:SS:FF\<close> with every field padded with
  zeros to two digits and \<^verbatim>\<open>FF = floor((milliseconds / 1000) * 30)\<close>.  This is that
  description; \<open>getTimecode\<close> above is the code.
\<close>

definition twoDigits :: "int \<Rightarrow> string" where
  "twoDigits n = [digitChar (nat (n div 10)), digitChar (nat (n mod 10))]"

definition timecode_spec :: "int \<Rightarrow> int \<Rightarrow> int \<Rightarrow> int \<Rightarrow> string" where
  "timecode_spec h m s ms =
     twoDigits h @ '':'' @ twoDigits m @ '':'' @ twoDigits s @ '':''
       @ twoDigits \<lfloor>(real_of_int ms / 1000) * 30\<rfloor>"

subsection \<open>The QR payload as the specification words it\<close>

text \<open>
  The specification describes the payload as the ISO timestamp, the canvas dimensions and
  the index of the 30 fps frame within the current second.  This is that description, with
  the separators of the code.
\<close>

definition qr_payload_spec :: "Platform \<Rightarrow> Props \<Rightarrow> int \<Rightarrow> string" where
  "qr_payload_spec pf p t =
     toISOString pf t @ ''|'' @ numberToString pf (width p) @ ''x''
       @ numberToString pf (height p) @ ''|f''
       @ twoDigits \<lfloor>(real_of_int (t mod 1000) / 1000) * 30\<rfloor>"

subsection \<open>Concrete inputs\<close>

text \<open>
  A platform and a clock on which the model can be evaluated.  The platform is a stand-in:
  it prints a date as its time value and a number as its integral part, and its QR encoder
  returns the payload itself with 29 modules.  The clock starts at
  2024-01-01T00:00:00.500Z and advances 16 ms with every read.
\<close>

definition examplePlatform :: Platform where
  "examplePlatform =
     \<lparr> toISOString = intToString, numberToString = (\<lambda>x. intToString \<lfloor>x\<rfloor>),
       qrEncode = (\<lambda>payload. (payload, 29)), localTZA = (\<lambda>t. 3600000),
       zoneFields = (\<lambda>tz t. None) \<rparr>"

definition exampleClock :: Clock where
  "exampleClock = \<lparr> readings = (\<lambda>k. 1704067200500 + 16 * int k), reads = 0 \<rparr>"

text \<open>
  A canvas of 1920 by 1080 with the four animated overlays switched on, and the state of
  the component after it was created at 2024-01-01T00:00:00.000Z and mounted.
\<close>

definition exampleProps :: Props where
  "exampleProps =
     (defaultProps 1920 1080)\<lparr> showBall := True, showSpinner := True, showSyncQr := True,
                                showShimmer := True \<rparr>"

definition exampleMounted :: AnimState where
  "exampleMounted = onMount examplePlatform exampleProps (initialState 1704067200000)"

section \<open>The geometry of a frame\<close>

text \<open>
  In the geometry of the template a number can fail to be finite: a division by zero gives
  \<^verbatim>\<open>NaN\<close> or an infinity.  Here a number is a real or \<open>NotFinite\<close>, which stands for
  \<^verbatim>\<open>NaN\<close> and for both infinities without telling them apart.  An operation with such an
  operand is taken to give such a value again; this errs on the side of \<^verbatim>\<open>NaN\<close> (in
  JavaScript a finite number divided by an infinity is 0).
\<close>

datatype jsnum = Num real | NotFinite

instantiation jsnum :: "{plus, minus, uminus, times, inverse}"
begin

definition plus_jsnum_def:
  "a + b = (case a of Num x \<Rightarrow> (case b of Num y \<Rightarrow> Num (x + y) | NotFinite \<Rightarrow> NotFinite)
            | NotFinite \<Rightarrow> NotFinite)"

definition minus_jsnum_def:
  "a - b = (case a of Num x \<Rightarrow> (case b of Num y \<Rightarrow> Num (x - y) | NotFinite \<Rightarrow> NotFinite)
            | NotFinite \<Rightarrow> NotFinite)"

definition uminus_jsnum_def:
  "- a = (case a of Num x \<Rightarrow> Num (- x) | NotFinite \<Rightarrow> NotFinite)"

definition times_jsnum_def:
  "a * b = (case a of Num x \<Rightarrow> (case b of Num y \<Rightarrow> Num (x * y) | NotFinite \<Rightarrow> NotFinite)
            | NotFinite \<Rightarrow> NotFinite)"

definition divide_jsnum_def:
  "a div b = (case a of Num x \<Rightarrow> (case b of Num y \<Rightarrow> (if y = 0 then NotFinite else Num (x / y))
                                     | NotFinite \<Rightarrow> NotFinite)
              | NotFinite \<Rightarrow> NotFinite)"

definition inverse_jsnum_def:
  "inverse a = (case a of Num x \<Rightarrow> (if x = 0 then NotFinite else Num (inverse x))
                | NotFinite \<Rightarrow> NotFinite)"

instance ..

end

definition Math_min :: "jsnum \<Rightarrow> jsnum \<Rightarrow> jsnum" where
  "Math_min a b = (case a of Num x \<Rightarrow> (case b of Num y \<Rightarrow> Num (min x y) | NotFinite \<Rightarrow> NotFinite)
                   | NotFinite \<Rightarrow> NotFinite)"

definition Math_max :: "jsnum \<Rightarrow> jsnum \<Rightarrow> jsnum" where
  "Math_max a b = (case a of Num x \<Rightarrow> (case b of Num y \<Rightarrow> Num (max x y) | NotFinite \<Rightarrow> NotFinite)
                   | NotFinite \<Rightarrow> NotFinite)"


text \<open>The rectangles, lines and circles of the template, with their geometry attributes.\<close>

datatype Shape =
    RectShape jsnum jsnum jsnum jsnum
  | LineShape jsnum jsnum jsnum jsnum
  | CircleShape jsnum jsnum jsnum

text \<open>
  The properties that only the geometry reads.  \<^verbatim>\<open>customImage\<close> is a string or null, and
  the template tests it and \<^verbatim>\<open>customText\<close> for truthiness.
\<close>

datatype HAlign = AlignLeft | AlignCenter | AlignRight

datatype VAlign = AlignTop | AlignMiddle | AlignBottom

record PanelProps =
  nativeWidth :: real
  nativeHeight :: real
  showGrid :: bool
  showFrame :: bool
  customText :: string
  customImage :: "string option"
  hAlign :: HAlign
  vAlign :: VAlign

definition truthy :: "string \<Rightarrow> bool" where
  "truthy str = (str \<noteq> [])"

definition hasCustomText :: "PanelProps \<Rightarrow> bool" where
  "hasCustomText pp = truthy (customText pp)"

definition hasCustomImage :: "PanelProps \<Rightarrow> bool" where
  "hasCustomImage pp = (case customImage pp of None \<Rightarrow> False | Some url \<Rightarrow> truthy url)"

definition isScaled :: "Props \<Rightarrow> PanelProps \<Rightarrow> bool" where
  "isScaled p pp =
     (nativeWidth pp > 0 \<and> nativeHeight pp > 0
      \<and> (nativeWidth pp \<noteq> width p \<or> nativeHeight pp \<noteq> height p))"

text \<open>The two dimensions, which are finite numbers.\<close>

definition width_js :: "Props \<Rightarrow> jsnum" where
  "width_js p = Num (width p)"

definition height_js :: "Props \<Rightarrow> jsnum" where
  "height_js p = Num (height p)"

definition actionSafe :: real where
  "actionSafe = 35 / 1000"

definition titleSafe :: real where
  "titleSafe = 5 / 100"

text \<open>The derived values of the script.\<close>

definition plugeY_js :: "Props \<Rightarrow> jsnum" where
  "plugeY_js p = height_js p * Num (75 / 100)"

definition plugeHeight_js :: "Props \<Rightarrow> jsnum" where
  "plugeHeight_js p = height_js p * Num (25 / 100)"

definition totalWidthUnits_js :: jsnum where
  "totalWidthUnits_js = foldl (\<lambda>sum item. sum + Num (seg_width item)) (Num 0) pluGeRow"

definition unitWidth_js :: "Props \<Rightarrow> jsnum" where
  "unitWidth_js p = width_js p / totalWidthUnits_js"

definition getPlugeX_js :: "Props \<Rightarrow> nat \<Rightarrow> jsnum" where
  "getPlugeX_js p index =
     foldl (\<lambda>sum item. sum + Num (seg_width item) * (width_js p / totalWidthUnits_js)) (Num 0)
       (take index pluGeRow)"

definition ballRadius_js :: "Props \<Rightarrow> jsnum" where
  "ballRadius_js p = Math_min (width_js p) (height_js p) * Num (25 / 1000)"

definition ballY_js :: "Props \<Rightarrow> jsnum" where
  "ballY_js p = height_js p * Num (67 / 100) / Num 2"

definition spinnerRadius :: "Props \<Rightarrow> jsnum" where
  "spinnerRadius p = Math_max (width_js p * Num (16 / 100)) (height_js p * Num (22 / 100))"

definition spinnerStroke :: "Props \<Rightarrow> jsnum" where
  "spinnerStroke p =
     Math_max (Num (15 / 10)) (Math_min (width_js p) (height_js p) * Num (55 / 10000))"

definition qrCell :: "Props \<Rightarrow> jsnum" where
  "qrCell p = Math_max (Num 2) (Math_min (width_js p) (height_js p) * Num (65 / 10000))"

definition qrRenderSize :: "Props \<Rightarrow> AnimState \<Rightarrow> jsnum" where
  "qrRenderSize p s = Num (real (qrSize s)) * qrCell p"

definition qrX :: "Props \<Rightarrow> jsnum" where
  "qrX p = width_js p * Num (2 / 100)"

definition qrPanelPadding :: "Props \<Rightarrow> jsnum" where
  "qrPanelPadding p = qrCell p * Num (11 / 10)"

definition qrLabelHeight :: "Props \<Rightarrow> jsnum" where
  "qrLabelHeight p = height_js p * Num (38 / 1000)"

definition qrPanelWidth :: "Props \<Rightarrow> AnimState \<Rightarrow> jsnum" where
  "qrPanelWidth p s = qrRenderSize p s + qrPanelPadding p * Num 2"

definition qrPanelHeight :: "Props \<Rightarrow> AnimState \<Rightarrow> jsnum" where
  "qrPanelHeight p s = qrRenderSize p s + qrPanelPadding p * Num 2 + qrLabelHeight p"

definition qrY :: "Props \<Rightarrow> AnimState \<Rightarrow> jsnum" where
  "qrY p s = (height_js p - qrPanelHeight p s) / Num 2"

subsection \<open>The groups of the template\<close>

definition clipShapes :: "Props \<Rightarrow> Shape list" where
  "clipShapes p = [RectShape (Num 0) (Num 0) (width_js p) (height_js p)]"

definition backgroundShapes :: "Props \<Rightarrow> Shape list" where
  "backgroundShapes p = [RectShape (Num 0) (Num 0) (width_js p) (height_js p)]"

definition mainBarShapes :: "Props \<Rightarrow> Shape list" where
  "mainBarShapes p =
     map (\<lambda>(i, bar). RectShape ((width_js p / Num 7) * Num (real i)) (Num 0)
                         (width_js p / Num 7 + Num 1) (height_js p * Num (67 / 100)))
         (enumerate 0 mainBars)"

definition castellationShapes :: "Props \<Rightarrow> Shape list" where
  "castellationShapes p =
     map (\<lambda>(i, bar). RectShape ((width_js p / Num 7) * Num (real i)) (height_js p * Num (67 / 100))
                         (width_js p / Num 7 + Num 1) (height_js p * Num (8 / 100)))
         (enumerate 0 castellations)"

definition plugeShapes :: "Props \<Rightarrow> Shape list" where
  "plugeShapes p =
     map (\<lambda>(i, segment). RectShape (getPlugeX_js p i) (plugeY_js p)
                             (Num (seg_width segment) * unitWidth_js p + Num 1)
                             (plugeHeight_js p))
         (enumerate 0 pluGeRow)"

definition barRowShapes :: "Props \<Rightarrow> Shape list" where
  "barRowShapes p = mainBarShapes p @ castellationShapes p @ plugeShapes p"

definition frameShapes :: "Props \<Rightarrow> Shape list" where
  "frameShapes p =
     [RectShape (Num 1) (Num 1) (width_js p - Num 2) (height_js p - Num 2),
      LineShape (Num 0) (Num 0) (width_js p) (height_js p),
      LineShape (width_js p) (Num 0) (Num 0) (height_js p),
      CircleShape (width_js p / Num 2) (height_js p / Num 2)
        (Math_min (width_js p) (height_js p) * Num (15 / 100))]"

definition ballShapes :: "Props \<Rightarrow> AnimState \<Rightarrow> Shape list" where
  "ballShapes p s = [CircleShape (Num (ballX s)) (ballY_js p) (ballRadius_js p)]"

definition qrShapes :: "Props \<Rightarrow> AnimState \<Rightarrow> Shape list" where
  "qrShapes p s =
     [RectShape (qrX p) (qrY p s) (qrPanelWidth p s) (qrPanelHeight p s),
      RectShape (qrX p + qrPanelPadding p) (qrY p s + qrPanelPadding p)
        (qrRenderSize p s) (qrRenderSize p s)]"

text \<open>The constants of the info overlay, which the template computes in place.\<close>

definition rowHeight :: "Props \<Rightarrow> jsnum" where
  "rowHeight p = height_js p * Num (45 / 1000)"

definition gap :: "Props \<Rightarrow> jsnum" where
  "gap p = height_js p * Num (15 / 1000)"

definition margin :: "Props \<Rightarrow> jsnum" where
  "margin p = height_js p * Num (2 / 100)"

definition totalRows :: "Platform \<Rightarrow> Props \<Rightarrow> PanelProps \<Rightarrow> nat" where
  "totalRows pf p pp = length (getTimeDisplays pf p) + 2 + (if isScaled p pp then 1 else 0)"

definition boxWidth :: "Props \<Rightarrow> jsnum" where
  "boxWidth p = width_js p * Num (28 / 100)"

definition infoBoxHeight :: "Platform \<Rightarrow> Props \<Rightarrow> PanelProps \<Rightarrow> jsnum" where
  "infoBoxHeight pf p pp =
     rowHeight p * Num (real (totalRows pf p pp)) + height_js p * Num (25 / 1000)"

definition textBoxHeight :: "Props \<Rightarrow> PanelProps \<Rightarrow> jsnum" where
  "textBoxHeight p pp = (if hasCustomText pp then height_js p * Num (5 / 100) else Num 0)"

definition imgBoxHeight :: "Props \<Rightarrow> PanelProps \<Rightarrow> jsnum" where
  "imgBoxHeight p pp = (if hasCustomImage pp then height_js p * Num (12 / 100) else Num 0)"

definition totalStackHeight :: "Platform \<Rightarrow> Props \<Rightarrow> PanelProps \<Rightarrow> jsnum" where
  "totalStackHeight pf p pp =
     infoBoxHeight pf p pp + textBoxHeight p pp + imgBoxHeight p pp
       + (if hasCustomText pp then gap p else Num 0)
       + (if hasCustomImage pp then gap p else Num 0)"

definition stackStartY :: "Platform \<Rightarrow> Props \<Rightarrow> PanelProps \<Rightarrow> jsnum" where
  "stackStartY pf p pp =
     (case vAlign pp of
        AlignTop \<Rightarrow> margin p
      | AlignBottom \<Rightarrow> height_js p - totalStackHeight pf p pp - margin p
      | AlignMiddle \<Rightarrow> (height_js p - totalStackHeight pf p pp) / Num 2)"

definition textBoxY :: "Platform \<Rightarrow> Props \<Rightarrow> PanelProps \<Rightarrow> jsnum" where
  "textBoxY pf p pp = stackStartY pf p pp"

definition imgBoxY :: "Platform \<Rightarrow> Props \<Rightarrow> PanelProps \<Rightarrow> jsnum" where
  "imgBoxY pf p pp =
     stackStartY pf p pp + (if hasCustomText pp then textBoxHeight p pp + gap p else Num 0)"

definition boxY :: "Platform \<Rightarrow> Props \<Rightarrow> PanelProps \<Rightarrow> jsnum" where
  "boxY pf p pp =
     stackStartY pf p pp + (if hasCustomText pp then textBoxHeight p pp + gap p else Num 0)
       + (if hasCustomImage pp then imgBoxHeight p pp + gap p else Num 0)"

definition boxX :: "Props \<Rightarrow> PanelProps \<Rightarrow> jsnum" where
  "boxX p pp =
     (case hAlign pp of
        AlignLeft \<Rightarrow> margin p
      | AlignRight \<Rightarrow> width_js p - boxWidth p - margin p
      | AlignCenter \<Rightarrow> width_js p * Num (5 / 10) - boxWidth p / Num 2)"

definition imgBoxWidth :: "Props \<Rightarrow> jsnum" where
  "imgBoxWidth p = width_js p * Num (12 / 100)"

definition imgBoxX :: "Props \<Rightarrow> PanelProps \<Rightarrow> jsnum" where
  "imgBoxX p pp =
     (case hAlign pp of
        AlignLeft \<Rightarrow> margin p + (boxWidth p - imgBoxWidth p) / Num 2
      | AlignRight \<Rightarrow> width_js p - margin p - boxWidth p + (boxWidth p - imgBoxWidth p) / Num 2
      | AlignCenter \<Rightarrow> width_js p * Num (5 / 10) - imgBoxWidth p / Num 2)"

definition spinnerX :: "Props \<Rightarrow> jsnum" where
  "spinnerX p = width_js p * Num (5 / 10)"

definition infoShapes :: "Platform \<Rightarrow> Props \<Rightarrow> PanelProps \<Rightarrow> Shape list" where
  "infoShapes pf p pp =
     (if hasCustomText pp
      then [RectShape (boxX p pp) (textBoxY pf p pp) (boxWidth p) (textBoxHeight p pp)]
      else [])
     @ (if hasCustomImage pp
        then [RectShape (imgBoxX p pp) (imgBoxY pf p pp) (imgBoxWidth p) (imgBoxHeight p pp)]
        else [])
     @ [RectShape (boxX p pp) (boxY pf p pp) (boxWidth p) (infoBoxHeight pf p pp)]"

text \<open>The spinner is drawn in a group that is translated to its centre.\<close>

definition spinnerShapes :: "Props \<Rightarrow> AnimState \<Rightarrow> Shape list" where
  "spinnerShapes p s =
     [CircleShape (Num 0) (Num 0) (spinnerRadius p),
      CircleShape (Num 0) (Num 0) (spinnerRadius p + spinnerStroke p * Num (125 / 100)),
      CircleShape (Num 0) (Num 0)
        (Math_max (Num 1) (spinnerRadius p - spinnerStroke p * Num (125 / 100))),
      CircleShape (Num 0) (Num 0) (spinnerRadius p),
      CircleShape (Num 0) (Num 0) (spinnerRadius p)]
     @ (if spinnerPhaseMs s < spinnerFlashFrameMs s
        then [LineShape (- spinnerX p) (Num 0) (width_js p - spinnerX p) (Num 0)]
        else [])"

definition cornerShapes :: "Props \<Rightarrow> real \<times> real \<Rightarrow> Shape list" where
  "cornerShapes p c =
     (case c of (cx, cy) \<Rightarrow>
       [LineShape
          (width_js p * Num actionSafe + (Num cx * width_js p * Num (1 - 2 * actionSafe)))
          (height_js p * Num actionSafe + (Num cy * height_js p * Num (1 - 2 * actionSafe))
             + (if cy = 0 then Num 0 else - height_js p * Num (2 / 100)))
          (width_js p * Num actionSafe + (Num cx * width_js p * Num (1 - 2 * actionSafe)))
          (height_js p * Num actionSafe + (Num cy * height_js p * Num (1 - 2 * actionSafe))
             + (if cy = 0 then height_js p * Num (2 / 100) else Num 0)),
        LineShape
          (width_js p * Num actionSafe + (Num cx * width_js p * Num (1 - 2 * actionSafe))
             + (if cx = 0 then Num 0 else - width_js p * Num (2 / 100)))
          (height_js p * Num actionSafe + (Num cy * height_js p * Num (1 - 2 * actionSafe)))
          (width_js p * Num actionSafe + (Num cx * width_js p * Num (1 - 2 * actionSafe))
             + (if cx = 0 then width_js p * Num (2 / 100) else Num 0))
          (height_js p * Num actionSafe + (Num cy * height_js p * Num (1 - 2 * actionSafe)))])"

definition gridShapes :: "Props \<Rightarrow> Shape list" where
  "gridShapes p =
     [RectShape (width_js p * Num actionSafe) (height_js p * Num actionSafe)
        (width_js p * Num (1 - 2 * actionSafe)) (height_js p * Num (1 - 2 * actionSafe)),
      RectShape (width_js p * Num titleSafe) (height_js p * Num titleSafe)
        (width_js p * Num (1 - 2 * titleSafe)) (height_js p * Num (1 - 2 * titleSafe)),
      LineShape (width_js p * Num (5 / 10) - width_js p * Num (3 / 100)) (height_js p * Num (5 / 10))
        (width_js p * Num (5 / 10) + width_js p * Num (3 / 100)) (height_js p * Num (5 / 10)),
      LineShape (width_js p * Num (5 / 10)) (height_js p * Num (5 / 10) - height_js p * Num (3 / 100))
        (width_js p * Num (5 / 10)) (height_js p * Num (5 / 10) + height_js p * Num (3 / 100)),
      CircleShape (width_js p * Num (5 / 10)) (height_js p * Num (5 / 10))
        (Math_min (width_js p) (height_js p) * Num (2 / 100))]
     @ concat (map (cornerShapes p) [(0, 0), (1, 0), (0, 1), (1, 1)])"

text \<open>Every rectangle, line and circle of a frame, in document order.\<close>

definition layoutShapes :: "Platform \<Rightarrow> Props \<Rightarrow> PanelProps \<Rightarrow> AnimState \<Rightarrow> Shape list" where
  "layoutShapes pf p pp s =
     clipShapes p @ backgroundShapes p @ barRowShapes p
     @ (if showFrame pp then frameShapes p else [])
     @ (if showBall p then ballShapes p s else [])
     @ (if showSyncQr p then qrShapes p s else [])
     @ infoShapes pf p pp
     @ (if showSpinner p then spinnerShapes p s else [])
     @ (if showGrid pp then gridShapes p else [])"

text \<open>
  Rendering the template.  Its one call that can throw is the \<^verbatim>\<open>getTime\<close> closure of a
  remote zone that the platform does not know, in a time row.
\<close>

datatype RenderError = UnknownZone

definition render ::
  "Platform \<Rightarrow> Props \<Rightarrow> PanelProps \<Rightarrow> AnimState \<Rightarrow> RenderError + Shape list" where
  "render pf p pp s =
     (if List.member (timeRows pf p s) None then Inl UnknownZone
      else Inr (layoutShapes pf p pp s))"

subsection \<open>Sizes\<close>

definition isNum :: "jsnum \<Rightarrow> bool" where
  "isNum a = (case a of Num x \<Rightarrow> True | NotFinite \<Rightarrow> False)"

definition shapeFinite :: "Shape \<Rightarrow> bool" where
  "shapeFinite sh =
     (case sh of
        RectShape x y w h \<Rightarrow> isNum x \<and> isNum y \<and> isNum w \<and> isNum h
      | LineShape x1 y1 x2 y2 \<Rightarrow> isNum x1 \<and> isNum y1 \<and> isNum x2 \<and> isNum y2
      | CircleShape cx cy r \<Rightarrow> isNum cx \<and> isNum cy \<and> isNum r)"

text \<open>
  The horizontal and the vertical extent of a shape: the width and the height of a
  rectangle, the differences of the end points of a line, the diameter of a circle.
\<close>

definition shapeWidth :: "Shape \<Rightarrow> jsnum" where
  "shapeWidth sh =
     (case sh of
        RectShape x y w h \<Rightarrow> w
      | LineShape x1 y1 x2 y2 \<Rightarrow> x2 - x1
      | CircleShape cx cy r \<Rightarrow> r * Num 2)"

definition shapeHeight :: "Shape \<Rightarrow> jsnum" where
  "shapeHeight sh =
     (case sh of
        RectShape x y w h \<Rightarrow> h
      | LineShape x1 y1 x2 y2 \<Rightarrow> y2 - y1
      | CircleShape cx cy r \<Rightarrow> r * Num 2)"

definition shapeRadius :: "Shape \<Rightarrow> jsnum" where
  "shapeRadius sh = (case sh of CircleShape cx cy r \<Rightarrow> r | _ \<Rightarrow> Num 0)"

definition nonPositive :: "jsnum \<Rightarrow> bool" where
  "nonPositive a = (case a of Num x \<Rightarrow> x \<le> 0 | NotFinite \<Rightarrow> False)"


definition shapeOfRect :: "Rect \<Rightarrow> Shape" where
  "shapeOfRect r = RectShape (Num (rect_x r)) (Num (rect_y r)) (Num (rect_width r)) (Num (rect_height r))"

definition isCircle :: "Shape \<Rightarrow> bool" where
  "isCircle sh = (case sh of CircleShape cx cy r \<Rightarrow> True | _ \<Rightarrow> False)"

definition isRect :: "Shape \<Rightarrow> bool" where
  "isRect sh = (case sh of RectShape x y w h \<Rightarrow> True | _ \<Rightarrow> False)"

definition rectsOf :: "Shape list \<Rightarrow> Shape list" where
  "rectsOf shs = filter isRect shs"

definition rectsAndLines :: "Shape list \<Rightarrow> Shape list" where
  "rectsAndLines shs = filter (\<lambda>sh. \<not> isCircle sh) shs"

definition circlesOf :: "Shape list \<Rightarrow> Shape list" where
  "circlesOf shs = filter isCircle shs"

text \<open>
  A panel with the frame and the grid shown, a custom text and no custom image, to go with
  the concrete inputs above.
\<close>

definition examplePanel :: PanelProps where
  "examplePanel =
     \<lparr> nativeWidth = 0, nativeHeight = 0, showGrid = True, showFrame = True,
       customText = ''SMPTE'', customImage = None, hAlign = AlignCenter, vAlign = AlignMiddle \<rparr>"

section \<open>Properties of the time synchronisation\<close>

text \<open>
  Claim C10.  When the fetch inside \<^verbatim>\<open>syncTime\<close> fails (the promise of \<^verbatim>\<open>fetch\<close> rejects,
  the response is not ok, or parsing the body fails), the call only sets \<open>synced\<close> to
  false: \<open>offset\<close>, \<open>serverTime\<close> and \<open>lastSync\<close> keep their values, so for every state of the
  local clock \<^verbatim>\<open>getSyncedTime\<close> returns the same instant before and after the failed call.
  The last offset is never reset to 0.
\<close>

theorem syncTime_failure_keeps_offset:
  assumes "outcome = FetchRejected \<or> outcome = ResponseNotOk \<or> outcome = JsonRejected"
    and "\<not> syncInProgress m"
  shows "timeData (syncTime outcome rd m) = (timeData m)\<lparr> synced := False \<rparr>
       \<and> \<not> synced (timeData (syncTime outcome rd m))
       \<and> offset (timeData (syncTime outcome rd m)) = offset (timeData m)
       \<and> serverTime (timeData (syncTime outcome rd m)) = serverTime (timeData m)
       \<and> lastSync (timeData (syncTime outcome rd m)) = lastSync (timeData m)
       \<and> getSyncedTime (timeData (syncTime outcome rd m)) c = getSyncedTime (timeData m) c"
  using assms
  by (auto simp: syncTime_def syncTime_settle_def syncTime_begin_def syncTime_try_def
      getSyncedTime_def)

theorem syncTime_failure_keeps_offset_witness:
  "(ResponseNotOk = FetchRejected \<or> ResponseNotOk = ResponseNotOk \<or> ResponseNotOk = JsonRejected)
   \<and> \<not> syncInProgress \<lparr> timeData = \<lparr> serverTime = 1704067200500, offset = 2501 / 2,
                                        lastSync = 1704067199250, synced = True \<rparr>,
                           syncInProgress = False \<rparr>
   \<and> offset (timeData (syncTime ResponseNotOk
         \<lparr> requestStart = 1704067260000, requestEnd = 1704067260080,
           localTimestamp = 1704067260081, lastSyncNow = 1704067260081 \<rparr>
         \<lparr> timeData = \<lparr> serverTime = 1704067200500, offset = 2501 / 2,
                        lastSync = 1704067199250, synced = True \<rparr>,
           syncInProgress = False \<rparr>)) = 2501 / 2
   \<and> fst (getSyncedTime (timeData (syncTime ResponseNotOk
         \<lparr> requestStart = 1704067260000, requestEnd = 1704067260080,
           localTimestamp = 1704067260081, lastSyncNow = 1704067260081 \<rparr>
         \<lparr> timeData = \<lparr> serverTime = 1704067200500, offset = 2501 / 2,
                        lastSync = 1704067199250, synced = True \<rparr>,
           syncInProgress = False \<rparr>))
         \<lparr> readings = (\<lambda>k. 1704067261000 + 16 * int k), reads = 0 \<rparr>) = 1704067262250"
  using syncTime_failure_keeps_offset [of ResponseNotOk
      "\<lparr> timeData = \<lparr> serverTime = 1704067200500, offset = 2501 / 2,
                        lastSync = 1704067199250, synced = True \<rparr>,
         syncInProgress = False \<rparr>"
      "\<lparr> requestStart = 1704067260000, requestEnd = 1704067260080,
         localTimestamp = 1704067260081, lastSyncNow = 1704067260081 \<rparr>"
      "\<lparr> readings = (\<lambda>k. 1704067261000 + 16 * int k), reads = 0 \<rparr>"]
  by (simp add: getSyncedTime_def Date_now_def newDate_def)

section \<open>Properties of the bar rows\<close>

lemma totalWidthUnits_eq: "totalWidthUnits = 8"
  by (simp add: totalWidthUnits_def pluGeRow_def)

lemma mainBarRects_widths: "map rect_width (mainBarRects p) = replicate 7 (width p / 7 + 1)"
  by (simp add: mainBarRects_def mainBars_def upt_rec numeral_eq_Suc)

lemma mainBarRects_xs:
  "map rect_x (mainBarRects p) = map (\<lambda>i. (width p / 7) * real i) [0..<7]"
  by (simp add: mainBarRects_def mainBars_def upt_rec numeral_eq_Suc)

lemma castellationRects_widths:
  "map rect_width (castellationRects p) = replicate 7 (width p / 7 + 1)"
  by (simp add: castellationRects_def castellations_def upt_rec numeral_eq_Suc)

lemma castellationRects_xs:
  "map rect_x (castellationRects p) = map (\<lambda>i. (width p / 7) * real i) [0..<7]"
  by (simp add: castellationRects_def castellations_def upt_rec numeral_eq_Suc)

lemma getPlugeX_values:
  "map (getPlugeX p) [0..<8]
     = map (\<lambda>k. k * (width p / 8)) [0, 1, 2, 3, 4, 9 / 2, 11 / 2, 6]"
  by (simp add: getPlugeX_def pluGeRow_def totalWidthUnits_eq upt_rec numeral_eq_Suc)

lemma plugeRects_xs: "map rect_x (plugeRects p) = map (getPlugeX p) [0..<8]"
  by (simp add: plugeRects_def pluGeRow_def upt_rec numeral_eq_Suc)

lemma plugeRects_widths:
  "map rect_width (plugeRects p) = map (\<lambda>seg. seg_width seg * (width p / 8) + 1) pluGeRow"
  by (simp add: plugeRects_def pluGeRow_def unitWidth_def totalWidthUnits_eq upt_rec
      numeral_eq_Suc)

lemma zero_width_xs:
  assumes "width p = 0"
  shows "map rect_x (barRowRects p) = replicate 22 0"
proof -
  have a: "map rect_x (mainBarRects p) = replicate 7 0"
    using assms by (simp add: mainBarRects_xs upt_rec numeral_eq_Suc)
  have b: "map rect_x (castellationRects p) = replicate 7 0"
    using assms by (simp add: castellationRects_xs upt_rec numeral_eq_Suc)
  have "map rect_x (plugeRects p)
          = map (\<lambda>k. k * (width p / 8)) [0, 1, 2, 3, 4, 9 / 2, 11 / 2, 6]"
    by (simp only: plugeRects_xs getPlugeX_values)
  then have c: "map rect_x (plugeRects p) = replicate 8 0"
    using assms by (simp add: numeral_eq_Suc)
  show ?thesis
    by (simp add: barRowRects_def a b c replicate_add [symmetric])
qed

lemma zero_width_widths: "width p = 0 \<Longrightarrow> map rect_width (barRowRects p) = replicate 22 1"
  by (simp add: barRowRects_def mainBarRects_widths castellationRects_widths
      plugeRects_widths pluGeRow_def numeral_eq_Suc)

lemma zero_height_heights: "height p = 0 \<Longrightarrow> map rect_height (barRowRects p) = replicate 22 0"
  by (simp add: barRowRects_def mainBarRects_def castellationRects_def plugeRects_def
      mainBars_def castellations_def pluGeRow_def plugeHeight_def upt_rec numeral_eq_Suc)

lemma zero_height_ys: "height p = 0 \<Longrightarrow> map rect_y (barRowRects p) = replicate 22 0"
  by (simp add: barRowRects_def mainBarRects_def castellationRects_def plugeRects_def
      mainBars_def castellations_def pluGeRow_def plugeY_def upt_rec numeral_eq_Suc)

text \<open>
  Claim C2, as stated: for every width W > 0 the widths of the 7 main-bar rectangles sum to
  within 1 unit of W.  At W = 7 each rectangle is 2 wide and the sum is 14.
\<close>

theorem mainBars_width_sum_counterexample:
  "0 < width (defaultProps 7 1080)
   \<and> \<not> \<bar>sum_list (map rect_width (mainBarRects (defaultProps 7 1080)))
          - width (defaultProps 7 1080)\<bar> \<le> 1"
  by (simp add: mainBarRects_widths defaultProps_def sum_list_replicate)

text \<open>
  Claim C2, amended.  For every width W there are 7 main-bar rectangles, the i-th at
  x = (W / 7) * i, each W / 7 + 1 wide.  Their widths sum to W + 7, that is W plus one unit
  of overlap for each rectangle; without the overlaps they sum to W, and the right edge of
  the last rectangle is W + 1.
\<close>

theorem mainBars_width_sum:
  "length (mainBarRects p) = 7
   \<and> map rect_width (mainBarRects p) = replicate 7 (width p / 7 + 1)
   \<and> map rect_x (mainBarRects p) = map (\<lambda>i. (width p / 7) * real i) [0..<7]
   \<and> sum_list (map rect_width (mainBarRects p)) = width p + 7
   \<and> sum_list (map (\<lambda>r. rect_width r - 1) (mainBarRects p)) = width p
   \<and> rect_x (last (mainBarRects p)) + rect_width (last (mainBarRects p)) = width p + 1"
proof -
  have len: "length (mainBarRects p) = 7"
    by (simp add: mainBarRects_def mainBars_def)
  have total: "sum_list (map rect_width (mainBarRects p)) = width p + 7"
    by (simp add: mainBarRects_widths sum_list_replicate)
  have inner: "sum_list (map (\<lambda>r. rect_width r - 1) (mainBarRects p)) = width p"
    by (simp add: mainBarRects_def mainBars_def upt_rec numeral_eq_Suc)
  have edge: "rect_x (last (mainBarRects p)) + rect_width (last (mainBarRects p)) = width p + 1"
    by (simp add: mainBarRects_def mainBars_def upt_rec numeral_eq_Suc)
  show ?thesis
    using len total inner edge mainBarRects_widths mainBarRects_xs by simp
qed

text \<open>
  Claim C7.  The PLUGE row has the unit widths 1, 1, 1, 1, 0.5, 1, 0.5, 2, which sum to 8.
  For every width W > 0 the offsets \<open>getPlugeX 0\<close>, ..., \<open>getPlugeX 7\<close> are non-decreasing and
  are the x of the rectangles, the width of every rectangle is its unit width times W / 8
  plus the overlap of 1, and the right edge of the last segment is W without the overlap
  and W + 1 with it, which is within 1 unit of W.
\<close>

theorem pluge_row_layout:
  assumes "0 < width p"
  shows "totalWidthUnits = 8
   \<and> map seg_width pluGeRow = [1, 1, 1, 1, 1 / 2, 1, 1 / 2, 2]
   \<and> sorted (map (getPlugeX p) [0..<8])
   \<and> map rect_x (plugeRects p) = map (getPlugeX p) [0..<8]
   \<and> map rect_width (plugeRects p) = map (\<lambda>seg. seg_width seg * (width p / 8) + 1) pluGeRow
   \<and> getPlugeX p 7 + seg_width (last pluGeRow) * (width p / 8) = width p
   \<and> rect_x (last (plugeRects p)) + rect_width (last (plugeRects p)) = width p + 1
   \<and> \<bar>rect_x (last (plugeRects p)) + rect_width (last (plugeRects p)) - width p\<bar> \<le> 1"
proof -
  have units: "map seg_width pluGeRow = [1, 1, 1, 1, 1 / 2, 1, 1 / 2, 2]"
    by (simp add: pluGeRow_def)
  have mono: "sorted (map (getPlugeX p) [0..<8])"
    unfolding getPlugeX_values using assms by simp
  have x7: "getPlugeX p 7 = 6 * (width p / 8)"
    by (simp add: getPlugeX_def pluGeRow_def totalWidthUnits_eq numeral_eq_Suc)
  have inner: "getPlugeX p 7 + seg_width (last pluGeRow) * (width p / 8) = width p"
    unfolding x7 by (simp add: pluGeRow_def)
  have edge: "rect_x (last (plugeRects p)) + rect_width (last (plugeRects p)) = width p + 1"
    by (simp add: plugeRects_def pluGeRow_def unitWidth_def totalWidthUnits_eq getPlugeX_def
        upt_rec numeral_eq_Suc)
  show ?thesis
    using units mono inner edge totalWidthUnits_eq plugeRects_xs plugeRects_widths by simp
qed

theorem pluge_row_layout_witness:
  "0 < width (defaultProps 1920 1080)
   \<and> sorted (map (getPlugeX (defaultProps 1920 1080)) [0..<8])
   \<and> getPlugeX (defaultProps 1920 1080) 7 = 1440
   \<and> rect_x (last (plugeRects (defaultProps 1920 1080)))
       + rect_width (last (plugeRects (defaultProps 1920 1080))) = 1921"
proof -
  have w: "width (defaultProps 1920 1080) = 1920"
    by (simp add: defaultProps_def)
  show ?thesis using pluge_row_layout [of "defaultProps 1920 1080"] by (simp add: w pluGeRow_def)
qed

section \<open>Properties of the timecode\<close>

lemma natToString_small: "n < 10 \<Longrightarrow> natToString n = [digitChar n]"
  by simp

lemma natToString_two:
  assumes "10 \<le> n" "n < 100"
  shows "natToString n = [digitChar (n div 10), digitChar (n mod 10)]"
proof -
  have "n div 10 < 10" using assms by simp
  then have "natToString (n div 10) = [digitChar (n div 10)]" by (rule natToString_small)
  moreover have "natToString n = natToString (n div 10) @ [digitChar (n mod 10)]"
    using assms by (subst natToString.simps) simp
  ultimately show ?thesis by simp
qed

lemma padStart_two:
  assumes "0 \<le> n" "n < 100"
  shows "padStart (intToString n) 2 CHR ''0'' = twoDigits n"
proof (cases "n < 10")
  case True
  then have "nat n < 10" by simp
  then have "natToString (nat n) = [digitChar (nat n)]" by (rule natToString_small)
  moreover have "n div 10 = 0" "n mod 10 = n" using assms True by simp_all
  moreover have "digitChar 0 = CHR ''0''" by (simp add: digitChar_def)
  ultimately show ?thesis using assms by (simp add: padStart_def intToString_def twoDigits_def)
next
  case False
  then have "10 \<le> nat n" "nat n < 100" using assms by simp_all
  then have "natToString (nat n) = [digitChar (nat n div 10), digitChar (nat n mod 10)]"
    by (rule natToString_two)
  moreover have "nat n div 10 = nat (n div 10)" "nat n mod 10 = nat (n mod 10)"
    using assms by (simp_all add: nat_div_distrib nat_mod_distrib)
  ultimately show ?thesis using assms by (simp add: padStart_def intToString_def twoDigits_def)
qed

lemma frame_floor: "\<lfloor>(real_of_int ms / 1000) * 30\<rfloor> = (ms * 30) div 1000"
proof -
  have "(real_of_int ms / 1000) * 30 = real_of_int (ms * 30) / real_of_int 1000" by simp
  then show ?thesis by (simp only: floor_divide_of_int_eq)
qed

lemma frame_range:
  "0 \<le> (ms::int) \<Longrightarrow> ms < 1000 \<Longrightarrow> 0 \<le> (ms * 30) div 1000 \<and> (ms * 30) div 1000 < 30"
  by auto

lemma frame_padStart:
  "padStart (intToString \<lfloor>(real_of_int (t mod 1000) / 1000) * 30\<rfloor>) 2 CHR ''0''
     = twoDigits \<lfloor>(real_of_int (t mod 1000) / 1000) * 30\<rfloor>"
proof -
  have "0 \<le> t mod 1000" "t mod 1000 < 1000" by simp_all
  then have "0 \<le> (t mod 1000 * 30) div 1000 \<and> (t mod 1000 * 30) div 1000 < 30"
    by (rule frame_range)
  then show ?thesis unfolding frame_floor by (intro padStart_two) simp_all
qed

lemma getTimecode_utc:
  "getTimecode tz t False
     = timecode_spec (getUTCHours t) (getUTCMinutes t) (getUTCSeconds t) (getUTCMilliseconds t)"
proof -
  have h: "padStart (intToString (getUTCHours t)) 2 CHR ''0'' = twoDigits (getUTCHours t)"
    by (rule padStart_two) (simp_all add: getUTCHours_def)
  have m: "padStart (intToString (getUTCMinutes t)) 2 CHR ''0'' = twoDigits (getUTCMinutes t)"
    by (rule padStart_two) (simp_all add: getUTCMinutes_def)
  have s: "padStart (intToString (getUTCSeconds t)) 2 CHR ''0'' = twoDigits (getUTCSeconds t)"
    by (rule padStart_two) (simp_all add: getUTCSeconds_def)
  have f: "padStart (intToString \<lfloor>(real_of_int (getUTCMilliseconds t) / 1000) * 30\<rfloor>) 2 CHR ''0''
      = twoDigits \<lfloor>(real_of_int (getUTCMilliseconds t) / 1000) * 30\<rfloor>"
    unfolding getUTCMilliseconds_def by (rule frame_padStart)
  show ?thesis
    by (simp only: getTimecode_def timecode_spec_def Let_def h m s f if_False)
qed

lemma getTimecode_local:
  "getTimecode tz t True
     = timecode_spec (getHours tz t) (getMinutes tz t) (getSeconds tz t) (getMilliseconds tz t)"
proof -
  have "getTimecode tz t True = getTimecode tz (t + tz t) False"
    by (simp add: getTimecode_def getHours_def getMinutes_def getSeconds_def getMilliseconds_def)
  then show ?thesis
    by (simp add: getTimecode_utc getHours_def getMinutes_def getSeconds_def getMilliseconds_def)
qed

text \<open>
  Claim C6.  \<open>getTimecode\<close> renders an instant as \<^verbatim>\<open>HH:MM:SS:FF\<close>: the hour, minute and second
  are the UTC fields when \<open>useLocal\<close> is false and the local fields when it is true, each as
  two digits, and \<^verbatim>\<open>FF = floor((milliseconds / 1000) * 30)\<close> as two digits.  The instant
  2024-01-01T00:00:00.500Z (time value 1704067200500) in UTC gives \<^verbatim>\<open>00:00:00:15\<close>, and an
  instant with 999 UTC milliseconds has the frame field 29.
\<close>

theorem getTimecode_format:
  "getTimecode tz t False
     = timecode_spec (getUTCHours t) (getUTCMinutes t) (getUTCSeconds t) (getUTCMilliseconds t)
   \<and> getTimecode tz t True
     = timecode_spec (getHours tz t) (getMinutes tz t) (getSeconds tz t) (getMilliseconds tz t)
   \<and> length (getTimecode tz t useLocal) = 11
   \<and> getTimecode tz 1704067200500 False = ''00:00:00:15''
   \<and> (getUTCMilliseconds t = 999 \<longrightarrow>
        \<lfloor>(real_of_int (getUTCMilliseconds t) / 1000) * 30\<rfloor> = 29
      \<and> drop 9 (getTimecode tz t False) = ''29'')"
proof -
  have len: "length (getTimecode tz t useLocal) = 11"
    by (cases useLocal) (simp_all add: getTimecode_utc getTimecode_local timecode_spec_def twoDigits_def)
  have ex: "getTimecode tz 1704067200500 False = ''00:00:00:15''"
    by (simp add: getTimecode_utc timecode_spec_def twoDigits_def getUTCHours_def
        getUTCMinutes_def getUTCSeconds_def getUTCMilliseconds_def digitChar_def)
  have last: "getUTCMilliseconds t = 999 \<longrightarrow>
        \<lfloor>(real_of_int (getUTCMilliseconds t) / 1000) * 30\<rfloor> = 29
      \<and> drop 9 (getTimecode tz t False) = ''29''"
    by (simp add: getTimecode_utc timecode_spec_def twoDigits_def digitChar_def)
  show ?thesis using len ex last getTimecode_utc getTimecode_local by simp
qed

theorem getTimecode_format_witness:
  "getUTCMilliseconds 1704067200999 = 999
   \<and> getTimecode (localTZA examplePlatform) 1704067200999 False = ''00:00:00:29''
   \<and> getTimecode (localTZA examplePlatform) 1704067200999 True = ''01:00:00:29''"
proof -
  have ms: "getUTCMilliseconds 1704067200999 = 999"
    by (simp add: getUTCMilliseconds_def)
  show ?thesis
    using getTimecode_format [of "localTZA examplePlatform" 1704067200999]
    by (simp add: ms timecode_spec_def twoDigits_def getUTCHours_def getUTCMinutes_def
        getUTCSeconds_def getHours_def getMinutes_def getSeconds_def getMilliseconds_def
        getUTCMilliseconds_def digitChar_def examplePlatform_def)
qed

section \<open>The tick, block by block\<close>

lemma getSyncedTime_fst:
  "fst (getSyncedTime td c) = newDate (real_of_int (readings c (reads c)) + offset td)"
  by (simp add: getSyncedTime_def Date_now_def)

lemma getSyncedTime_snd: "snd (getSyncedTime td c) = c\<lparr> reads := Suc (reads c) \<rparr>"
  by (simp add: getSyncedTime_def Date_now_def)

lemma raf_keeps:
  "currentTime (requestAnimationFrame s) = currentTime s"
  "lastFrameTime (requestAnimationFrame s) = lastFrameTime s"
  "ballX (requestAnimationFrame s) = ballX s"
  "ballDirection (requestAnimationFrame s) = ballDirection s"
  "spinnerPhaseMs (requestAnimationFrame s) = spinnerPhaseMs s"
  "spinnerAngle (requestAnimationFrame s) = spinnerAngle s"
  "qrToken (requestAnimationFrame s) = qrToken s"
  "qrLabel (requestAnimationFrame s) = qrLabel s"
  "qrDataUrl (requestAnimationFrame s) = qrDataUrl s"
  "qrSize (requestAnimationFrame s) = qrSize s"
  "qrEncodes (requestAnimationFrame s) = qrEncodes s"
  by (simp_all add: requestAnimationFrame_def)

lemma shimmerBlock_keeps:
  "currentTime (shimmerBlock p d s) = currentTime s"
  "lastFrameTime (shimmerBlock p d s) = lastFrameTime s"
  "ballX (shimmerBlock p d s) = ballX s"
  "ballDirection (shimmerBlock p d s) = ballDirection s"
  "spinnerPhaseMs (shimmerBlock p d s) = spinnerPhaseMs s"
  "spinnerAngle (shimmerBlock p d s) = spinnerAngle s"
  "qrToken (shimmerBlock p d s) = qrToken s"
  "qrLabel (shimmerBlock p d s) = qrLabel s"
  "qrDataUrl (shimmerBlock p d s) = qrDataUrl s"
  "qrSize (shimmerBlock p d s) = qrSize s"
  "qrEncodes (shimmerBlock p d s) = qrEncodes s"
  by (simp_all add: shimmerBlock_def Let_def)

lemma qrBlock_keeps:
  "currentTime (qrBlock pf p s) = currentTime s"
  "lastFrameTime (qrBlock pf p s) = lastFrameTime s"
  "ballX (qrBlock pf p s) = ballX s"
  "ballDirection (qrBlock pf p s) = ballDirection s"
  "spinnerPhaseMs (qrBlock pf p s) = spinnerPhaseMs s"
  "spinnerAngle (qrBlock pf p s) = spinnerAngle s"
  by (simp_all add: qrBlock_def Let_def split: prod.splits)

lemma spinnerBlock_keeps:
  "currentTime (spinnerBlock s) = currentTime s"
  "lastFrameTime (spinnerBlock s) = lastFrameTime s"
  "ballX (spinnerBlock s) = ballX s"
  "ballDirection (spinnerBlock s) = ballDirection s"
  "qrToken (spinnerBlock s) = qrToken s"
  "qrLabel (spinnerBlock s) = qrLabel s"
  "qrDataUrl (spinnerBlock s) = qrDataUrl s"
  "qrSize (spinnerBlock s) = qrSize s"
  "qrEncodes (spinnerBlock s) = qrEncodes s"
  by (simp_all add: spinnerBlock_def Let_def)

lemma ballBlock_keeps:
  "currentTime (ballBlock p d s) = currentTime s"
  "lastFrameTime (ballBlock p d s) = lastFrameTime s"
  "qrToken (ballBlock p d s) = qrToken s"
  "qrLabel (ballBlock p d s) = qrLabel s"
  "qrDataUrl (ballBlock p d s) = qrDataUrl s"
  "qrSize (ballBlock p d s) = qrSize s"
  "qrEncodes (ballBlock p d s) = qrEncodes s"
  by (simp_all add: ballBlock_def Let_def)

lemma fpsBlock_keeps:
  "currentTime (fpsBlock ts s) = currentTime s"
  "lastFrameTime (fpsBlock ts s) = lastFrameTime s"
  "ballX (fpsBlock ts s) = ballX s"
  "ballDirection (fpsBlock ts s) = ballDirection s"
  "qrToken (fpsBlock ts s) = qrToken s"
  "qrLabel (fpsBlock ts s) = qrLabel s"
  "qrDataUrl (fpsBlock ts s) = qrDataUrl s"
  "qrSize (fpsBlock ts s) = qrSize s"
  "qrEncodes (fpsBlock ts s) = qrEncodes s"
  by (simp_all add: fpsBlock_def Let_def)

lemmas keeps = raf_keeps shimmerBlock_keeps qrBlock_keeps spinnerBlock_keeps ballBlock_keeps
  fpsBlock_keeps

text \<open>A tick as the composition of its blocks.\<close>

lemma tick_unfold:
  "fst (updateAnimation pf p td ts (s, c)) =
     requestAnimationFrame
      ((if showShimmer p then shimmerBlock p (deltaMs_of s ts) else id)
        ((if showSyncQr p then qrBlock pf p else id)
          ((if showSpinner p then spinnerBlock else id)
            ((if showBall p then ballBlock p (deltaMs_of s ts) else id)
              ((fpsBlock ts (s\<lparr> currentTime := fst (getSyncedTime td c) \<rparr>))
                 \<lparr> spinnerFlashFrameMs := deltaMs_of s ts, lastFrameTime := ts \<rparr>)))))"
  by (simp add: updateAnimation_def Let_def deltaMs_of_def split: prod.splits)

lemma tick_clock: "snd (updateAnimation pf p td ts (s, c)) = c\<lparr> reads := Suc (reads c) \<rparr>"
  by (simp add: updateAnimation_def Let_def getSyncedTime_def Date_now_def)

lemma tick_currentTime:
  "currentTime (fst (updateAnimation pf p td ts (s, c))) = fst (getSyncedTime td c)"
  by (simp add: tick_unfold keeps)

lemma tick_lastFrameTime:
  "lastFrameTime (fst (updateAnimation pf p td ts (s, c))) = ts"
  by (simp add: tick_unfold keeps)


section \<open>Properties of the spinner\<close>

lemma jsRem_twice: "jsRem (jsRem t 5000 + 5000) 5000 = t mod 5000"
proof (cases "0 \<le> t")
  case True
  then have "jsRem t 5000 = t mod 5000" by (cases "t = 0") (simp_all add: jsRem_def)
  moreover have "0 \<le> t mod 5000" by simp
  ultimately show ?thesis by (simp add: jsRem_def)
next
  case False
  then have a: "jsRem t 5000 = - ((- t) mod 5000)" by (simp add: jsRem_def)
  have "(- t) mod 5000 < 5000" "0 \<le> (- t) mod 5000" by simp_all
  then have b: "0 < jsRem t 5000 + 5000" "jsRem t 5000 + 5000 \<le> 5000" unfolding a by simp_all
  then have "jsRem (jsRem t 5000 + 5000) 5000 = (jsRem t 5000 + 5000) mod 5000"
    by (simp add: jsRem_def)
  also have "\<dots> = (- ((- t) mod 5000)) mod 5000" unfolding a by simp
  also have "\<dots> = t mod 5000" by (simp add: mod_minus_eq)
  finally show ?thesis .
qed

lemma spinnerBlock_phase:
  "spinnerPhaseMs (spinnerBlock s) = real_of_int (currentTime s mod 5000)"
  "spinnerAngle (spinnerBlock s) = (real_of_int (currentTime s mod 5000) / 5000) * 360"
  by (simp_all add: spinnerBlock_def spinnerCycleMs_def jsRem_twice Let_def)

lemma tick_spinner:
  assumes "showSpinner p"
  shows "spinnerPhaseMs (fst (updateAnimation pf p td ts (s, c)))
           = real_of_int (fst (getSyncedTime td c) mod 5000)"
    and "spinnerAngle (fst (updateAnimation pf p td ts (s, c)))
           = (real_of_int (fst (getSyncedTime td c) mod 5000) / 5000) * 360"
  using assms by (simp_all add: tick_unfold keeps spinnerBlock_phase)

text \<open>
  Claim C4.  When the spinner is shown, the phase that a tick stores is the instant of the
  tick modulo 5000 ms, a value in [0, 5000), and the angle is (phase / 5000) * 360.  Neither
  depends on the state before the tick, on the frame timestamp or on the other properties:
  two ticks that observe the same instant store the same phase and the same angle.
\<close>

theorem spinner_phase_of_instant:
  assumes "showSpinner p"
  shows "spinnerPhaseMs (fst (updateAnimation pf p td ts (s, c)))
           = real_of_int (fst (getSyncedTime td c) mod 5000)
       \<and> 0 \<le> spinnerPhaseMs (fst (updateAnimation pf p td ts (s, c)))
       \<and> spinnerPhaseMs (fst (updateAnimation pf p td ts (s, c))) < 5000
       \<and> spinnerAngle (fst (updateAnimation pf p td ts (s, c)))
           = (spinnerPhaseMs (fst (updateAnimation pf p td ts (s, c))) / 5000) * 360
       \<and> (showSpinner p' \<and> fst (getSyncedTime td' c') = fst (getSyncedTime td c) \<longrightarrow>
            spinnerPhaseMs (fst (updateAnimation pf' p' td' ts' (s', c')))
              = spinnerPhaseMs (fst (updateAnimation pf p td ts (s, c)))
          \<and> spinnerAngle (fst (updateAnimation pf' p' td' ts' (s', c')))
              = spinnerAngle (fst (updateAnimation pf p td ts (s, c))))"
proof -
  have range: "0 \<le> real_of_int (fst (getSyncedTime td c) mod 5000)"
    "real_of_int (fst (getSyncedTime td c) mod 5000) < 5000"
    by simp_all
  show ?thesis
    using range by (simp add: tick_spinner [OF assms] tick_spinner [of p'])
qed

subsection \<open>The concrete inputs, evaluated\<close>

lemma exampleProps_fields:
  "width exampleProps = 1920" "height exampleProps = 1080" "showBall exampleProps"
  "showSpinner exampleProps" "showSyncQr exampleProps" "showShimmer exampleProps"
  by (simp_all add: exampleProps_def defaultProps_def)

lemma exampleMounted_fields:
  "qrToken exampleMounted = 0" "qrEncodes exampleMounted = 1"
  "ballX exampleMounted = 27" "ballDirection exampleMounted = 1"
  "lastFrameTime exampleMounted = 0"
  by (simp_all add: exampleMounted_def onMount_def initialState_def requestAnimationFrame_def
      generateSyncDataUrl_def examplePlatform_def ballRadius_def exampleProps_fields Let_def)

lemma newDate_of_int: "newDate (real_of_int k) = k"
  by (simp add: newDate_def)

lemma exampleClock_instant:
  "fst (getSyncedTime (initialTimeData 0) (exampleClock\<lparr> reads := n \<rparr>))
     = 1704067200500 + 16 * int n"
proof -
  have "fst (getSyncedTime (initialTimeData 0) (exampleClock\<lparr> reads := n \<rparr>))
          = newDate (real_of_int (1704067200500 + 16 * int n))"
    by (simp add: getSyncedTime_fst exampleClock_def initialTimeData_def)
  then show ?thesis by (simp only: newDate_of_int)
qed

lemma exampleClock_instant0:
  "fst (getSyncedTime (initialTimeData 0) exampleClock) = 1704067200500"
  by (simp add: getSyncedTime_fst exampleClock_def initialTimeData_def newDate_def)

lemma exampleClock_reads: "exampleClock\<lparr> reads := Suc (reads exampleClock) \<rparr> = exampleClock\<lparr> reads := 1 \<rparr>"
  by (simp add: exampleClock_def)

theorem spinner_phase_of_instant_witness:
  "showSpinner exampleProps
   \<and> spinnerPhaseMs (fst (updateAnimation examplePlatform exampleProps (initialTimeData 0) 1000
                            (exampleMounted, exampleClock))) = 500
   \<and> spinnerAngle (fst (updateAnimation examplePlatform exampleProps (initialTimeData 0) 1000
                          (exampleMounted, exampleClock))) = 36
   \<and> fst (getSyncedTime (initialTimeData 0) (exampleClock\<lparr> reads := 0 \<rparr>))
       = fst (getSyncedTime (initialTimeData 0) exampleClock)
   \<and> spinnerPhaseMs (fst (updateAnimation examplePlatform exampleProps (initialTimeData 0) 7000
                            (initialState 0, exampleClock\<lparr> reads := 0 \<rparr>))) = 500"
  using spinner_phase_of_instant [OF exampleProps_fields(4), of examplePlatform
      "initialTimeData 0" 1000 exampleMounted exampleClock exampleProps
      "initialTimeData 0" "exampleClock\<lparr> reads := 0 \<rparr>" examplePlatform 7000 "initialState 0"]
    exampleClock_instant [of 0]
  by (simp add: exampleProps_fields exampleClock_instant0)

section \<open>Properties of the sync QR beacon\<close>

lemma floor_second: "\<lfloor>real_of_int t / 1000\<rfloor> = t div 1000"
proof -
  have "real_of_int t / 1000 = real_of_int t / real_of_int 1000" by simp
  then show ?thesis by (simp only: floor_divide_of_int_eq)
qed

lemma qrBlock_same: "currentTime s div 1000 = qrToken s \<Longrightarrow> qrBlock pf p s = s"
  by (simp add: qrBlock_def Let_def floor_second)

lemma qrBlock_regen:
  assumes "currentTime s div 1000 \<noteq> qrToken s"
  shows "qrToken (qrBlock pf p s) = currentTime s div 1000"
    and "qrLabel (qrBlock pf p s) = qr_payload_spec pf p (currentTime s)"
    and "(qrDataUrl (qrBlock pf p s), qrSize (qrBlock pf p s))
           = generateSyncDataUrl pf (qrLabel (qrBlock pf p s))"
    and "qrEncodes (qrBlock pf p s) = Suc (qrEncodes s)"
  using assms
  unfolding qrBlock_def Let_def getUTCMilliseconds_def frame_padStart floor_second
    qr_payload_spec_def
  by (simp_all split: prod.splits)

lemma qrView_keeps:
  "qrView (requestAnimationFrame s) = qrView s"
  "qrView (shimmerBlock p d s) = qrView s"
  "qrView (spinnerBlock s) = qrView s"
  "qrView (ballBlock p d s) = qrView s"
  "qrView (fpsBlock ts s) = qrView s"
  by (simp_all add: qrView_def keeps)

text \<open>The state on which the QR block of a tick runs.\<close>

lemma tick_qr_on:
  assumes "showSyncQr p"
  shows "\<exists>s4. currentTime s4 = fst (getSyncedTime td c) \<and> qrView s4 = qrView s
           \<and> qrView (fst (updateAnimation pf p td ts (s, c))) = qrView (qrBlock pf p s4)"
proof -
  let ?s4 = "(if showSpinner p then spinnerBlock else id)
            ((if showBall p then ballBlock p (deltaMs_of s ts) else id)
              ((fpsBlock ts (s\<lparr> currentTime := fst (getSyncedTime td c) \<rparr>))
                 \<lparr> spinnerFlashFrameMs := deltaMs_of s ts, lastFrameTime := ts \<rparr>))"
  have a: "currentTime ?s4 = fst (getSyncedTime td c)"
    by (simp add: keeps)
  have b: "qrView ?s4 = qrView s"
    by (simp add: qrView_keeps) (simp add: qrView_def keeps)
  have c: "qrView (fst (updateAnimation pf p td ts (s, c))) = qrView (qrBlock pf p ?s4)"
    using assms by (simp add: tick_unfold qrView_keeps)
  show ?thesis using a b c by blast
qed

lemma tick_qr_off:
  "\<not> showSyncQr p \<Longrightarrow> qrView (fst (updateAnimation pf p td ts (s, c))) = qrView s"
  by (simp add: tick_unfold qrView_keeps) (simp add: qrView_def keeps)

lemma tick_qr_same:
  assumes "showSyncQr p" "fst (getSyncedTime td c) div 1000 = qrToken s"
  shows "qrView (fst (updateAnimation pf p td ts (s, c))) = qrView s"
proof -
  obtain s4 where s4: "currentTime s4 = fst (getSyncedTime td c)" "qrView s4 = qrView s"
    "qrView (fst (updateAnimation pf p td ts (s, c))) = qrView (qrBlock pf p s4)"
    using tick_qr_on [OF assms(1)] by blast
  have "qrToken s4 = qrToken s" using s4(2) by (simp add: qrView_def)
  then have "qrBlock pf p s4 = s4" using assms(2) s4(1) by (simp add: qrBlock_same)
  then show ?thesis using s4 by simp
qed

lemma tick_qr_regen:
  assumes "showSyncQr p" "fst (getSyncedTime td c) div 1000 \<noteq> qrToken s"
  shows "qrView (fst (updateAnimation pf p td ts (s, c)))
     = (fst (getSyncedTime td c) div 1000,
        qr_payload_spec pf p (fst (getSyncedTime td c)),
        fst (generateSyncDataUrl pf (qr_payload_spec pf p (fst (getSyncedTime td c)))),
        snd (generateSyncDataUrl pf (qr_payload_spec pf p (fst (getSyncedTime td c)))),
        Suc (qrEncodes s))"
proof -
  obtain s4 where s4: "currentTime s4 = fst (getSyncedTime td c)" "qrView s4 = qrView s"
    "qrView (fst (updateAnimation pf p td ts (s, c))) = qrView (qrBlock pf p s4)"
    using tick_qr_on [OF assms(1)] by blast
  have tok: "qrToken s4 = qrToken s" "qrEncodes s4 = qrEncodes s"
    using s4(2) by (simp_all add: qrView_def)
  then have ne: "currentTime s4 div 1000 \<noteq> qrToken s4" using assms(2) s4(1) by simp
  have lab: "qrLabel (fst (updateAnimation pf p td ts (s, c))) = qrLabel (qrBlock pf p s4)"
    using s4(3) by (simp add: qrView_def)
  have pair: "qrDataUrl (qrBlock pf p s4) = fst (generateSyncDataUrl pf (qrLabel (qrBlock pf p s4)))"
    "qrSize (qrBlock pf p s4) = snd (generateSyncDataUrl pf (qrLabel (qrBlock pf p s4)))"
    using qrBlock_regen(3) [OF ne, of pf p] by (simp_all add: prod_eq_iff)
  show ?thesis
    unfolding s4(3)
    by (simp add: qrView_def qrBlock_regen(1,2,4) [OF ne] pair s4(1) tok)
qed

lemma run_same_second:
  assumes "\<forall>q \<in> set ticks. showSyncQr (fst q)"
    and "\<forall>t \<in> set (instants c ticks). t div 1000 = qrToken s"
  shows "qrView (fst (runTicks pf ticks (s, c))) = qrView s"
  using assms
proof (induction ticks arbitrary: s c)
  case Nil
  then show ?case by simp
next
  case (Cons q ticks)
  obtain p td ts where q: "q = (p, td, ts)" by (cases q) auto
  let ?s' = "fst (updateAnimation pf p td ts (s, c))"
  let ?c' = "snd (getSyncedTime td c)"
  have upd: "updateAnimation pf p td ts (s, c) = (?s', ?c')"
    by (simp add: prod_eq_iff tick_clock getSyncedTime_snd)
  have inst: "instants c (q # ticks) = fst (getSyncedTime td c) # instants ?c' ticks"
    by (simp add: q split: prod.splits)
  have here: "fst (getSyncedTime td c) div 1000 = qrToken s"
    using Cons.prems(2) inst by simp
  have show_p: "showSyncQr p" using Cons.prems(1) q by simp
  have same: "qrView ?s' = qrView s"
    by (rule tick_qr_same [OF show_p here])
  then have tok: "qrToken ?s' = qrToken s" by (simp add: qrView_def)
  have "qrView (fst (runTicks pf ticks (?s', ?c'))) = qrView ?s'"
  proof (rule Cons.IH)
    show "\<forall>q \<in> set ticks. showSyncQr (fst q)" using Cons.prems(1) by simp
    show "\<forall>t \<in> set (instants ?c' ticks). t div 1000 = qrToken ?s'"
      using Cons.prems(2) inst tok by simp
  qed
  then show ?case using same upd q by simp
qed


text \<open>
  Claim C5, amended.  With the sync QR shown, a tick regenerates the payload exactly when
  the integer second of its instant differs from the stored token: then the encoder runs
  exactly once, the token becomes that second and the payload is built from the instant.
  When the second equals the stored token the tick leaves the token, the payload, the image
  and the count of encoder runs as they are.  So after a tick, any run of further ticks whose
  instants all lie in the same integer second regenerates nothing: never twice while the
  clock stays within one second.  When the clock leaves a second and comes back to it, the
  payload of that second is generated again.
\<close>

theorem qr_regenerated_on_second_change:
  assumes "showSyncQr p"
  shows "(fst (getSyncedTime td c) div 1000 \<noteq> qrToken s \<longrightarrow>
            qrView (fst (updateAnimation pf p td ts (s, c)))
              = (fst (getSyncedTime td c) div 1000,
                 qr_payload_spec pf p (fst (getSyncedTime td c)),
                 fst (generateSyncDataUrl pf (qr_payload_spec pf p (fst (getSyncedTime td c)))),
                 snd (generateSyncDataUrl pf (qr_payload_spec pf p (fst (getSyncedTime td c)))),
                 Suc (qrEncodes s)))
       \<and> (fst (getSyncedTime td c) div 1000 = qrToken s \<longrightarrow>
            qrView (fst (updateAnimation pf p td ts (s, c))) = qrView s)
       \<and> qrToken (fst (updateAnimation pf p td ts (s, c))) = fst (getSyncedTime td c) div 1000
       \<and> ((\<forall>q \<in> set ticks. showSyncQr (fst q))
            \<and> (\<forall>t \<in> set (instants (snd (updateAnimation pf p td ts (s, c))) ticks).
                  t div 1000 = fst (getSyncedTime td c) div 1000) \<longrightarrow>
            qrView (fst (runTicks pf ticks (updateAnimation pf p td ts (s, c))))
              = qrView (fst (updateAnimation pf p td ts (s, c))))"
proof -
  let ?sc = "updateAnimation pf p td ts (s, c)"
  let ?k = "fst (getSyncedTime td c) div 1000"
  have tok: "qrToken (fst ?sc) = ?k"
  proof (cases "?k = qrToken s")
    case True
    then show ?thesis using tick_qr_same [OF assms True, of pf ts] by (simp add: qrView_def)
  next
    case False
    then show ?thesis using tick_qr_regen [OF assms False, of pf ts] by (simp add: qrView_def)
  qed
  have run: "qrView (fst (runTicks pf ticks ?sc)) = qrView (fst ?sc)"
    if "\<forall>q \<in> set ticks. showSyncQr (fst q)"
      and "\<forall>t \<in> set (instants (snd ?sc) ticks). t div 1000 = ?k"
  proof -
    have "qrView (fst (runTicks pf ticks (fst ?sc, snd ?sc))) = qrView (fst ?sc)"
      by (rule run_same_second) (use that tok in simp_all)
    then show ?thesis by simp
  qed
  show ?thesis
    using tick_qr_same [OF assms, of td c s pf ts] tick_qr_regen [OF assms, of td c s pf ts]
      tok run
    by blast
qed


theorem qr_regenerated_on_second_change_witness:
  "showSyncQr exampleProps
   \<and> fst (getSyncedTime (initialTimeData 0) exampleClock) div 1000 \<noteq> qrToken exampleMounted
   \<and> map (\<lambda>q. showSyncQr (fst q))
         [(exampleProps, initialTimeData 0, 1016), (exampleProps, initialTimeData 0, 1033)]
       = [True, True]
   \<and> fst (getSyncedTime (initialTimeData 0) exampleClock) div 1000 = 1704067200
   \<and> map (\<lambda>t. t div 1000)
         (instants
           (snd (updateAnimation examplePlatform exampleProps (initialTimeData 0) 1000
                  (exampleMounted, exampleClock)))
           [(exampleProps, initialTimeData 0, 1016), (exampleProps, initialTimeData 0, 1033)])
       = [1704067200, 1704067200]
   \<and> qrEncodes (fst (updateAnimation examplePlatform exampleProps (initialTimeData 0) 1000
                       (exampleMounted, exampleClock))) = 2
   \<and> qrToken (fst (updateAnimation examplePlatform exampleProps (initialTimeData 0) 1000
                     (exampleMounted, exampleClock))) = 1704067200
   \<and> qrEncodes (fst (runTicks examplePlatform
          [(exampleProps, initialTimeData 0, 1016), (exampleProps, initialTimeData 0, 1033)]
          (updateAnimation examplePlatform exampleProps (initialTimeData 0) 1000
             (exampleMounted, exampleClock)))) = 2
   \<and> fst (getSyncedTime (initialTimeData 0) exampleClock) div 1000
       = qrToken (exampleMounted\<lparr> qrToken := 1704067200 \<rparr>)
   \<and> qrEncodes (fst (updateAnimation examplePlatform exampleProps (initialTimeData 0) 1000
                       (exampleMounted\<lparr> qrToken := 1704067200 \<rparr>, exampleClock))) = 1"
proof -
  let ?ticks = "[(exampleProps, initialTimeData 0, 1016), (exampleProps, initialTimeData 0, 1033)]"
  let ?sc = "updateAnimation examplePlatform exampleProps (initialTimeData 0) 1000
               (exampleMounted, exampleClock)"
  have ne: "fst (getSyncedTime (initialTimeData 0) exampleClock) div 1000 \<noteq> qrToken exampleMounted"
    by (simp add: exampleClock_instant0 exampleMounted_fields)
  have all_on: "\<forall>q \<in> set ?ticks. showSyncQr (fst q)"
    by (simp add: exampleProps_fields)
  have clock: "snd ?sc = exampleClock\<lparr> reads := 1 \<rparr>"
    by (simp add: tick_clock exampleClock_reads)
  have inst: "instants (snd ?sc) ?ticks = [1704067200516, 1704067200532]"
    unfolding clock
    by (simp add: getSyncedTime_def Date_now_def exampleClock_def initialTimeData_def newDate_def)
  have same: "\<forall>t \<in> set (instants (snd ?sc) ?ticks).
      t div 1000 = fst (getSyncedTime (initialTimeData 0) exampleClock) div 1000"
    unfolding inst by (simp add: exampleClock_instant0)
  have eq: "fst (getSyncedTime (initialTimeData 0) exampleClock) div 1000
       = qrToken (exampleMounted\<lparr> qrToken := 1704067200 \<rparr>)"
    by (simp add: exampleClock_instant0)
  have enc: "qrEncodes (exampleMounted\<lparr> qrToken := 1704067200 \<rparr>) = 1"
    by (simp add: exampleMounted_fields)
  show ?thesis
    using qr_regenerated_on_second_change [OF exampleProps_fields(5),
        of "initialTimeData 0" exampleClock exampleMounted examplePlatform 1000 ?ticks]
      qr_regenerated_on_second_change [OF exampleProps_fields(5),
        of "initialTimeData 0" exampleClock "exampleMounted\<lparr> qrToken := 1704067200 \<rparr>"
          examplePlatform 1000 "[]"]
      ne all_on same eq enc exampleProps_fields(5)
    unfolding inst
    by (simp add: qrView_def exampleClock_instant0 exampleMounted_fields)
qed

lemma tick_qrToken:
  assumes "showSyncQr p"
  shows "qrToken (fst (updateAnimation pf p td ts (s, c))) = fst (getSyncedTime td c) div 1000"
proof (cases "fst (getSyncedTime td c) div 1000 = qrToken s")
  case True
  then show ?thesis using tick_qr_same [OF assms True, of pf ts] by (simp add: qrView_def)
next
  case False
  then show ?thesis using tick_qr_regen [OF assms False, of pf ts] by (simp add: qrView_def)
qed

lemma tick_qr_pair:
  assumes "showSyncQr p"
  shows "qrToken (fst (updateAnimation pf p td ts sc)) = fst (getSyncedTime td (snd sc)) div 1000"
    and "qrEncodes (fst (updateAnimation pf p td ts sc))
           = (if fst (getSyncedTime td (snd sc)) div 1000 = qrToken (fst sc)
              then qrEncodes (fst sc) else Suc (qrEncodes (fst sc)))"
    and "qrLabel (fst (updateAnimation pf p td ts sc))
           = (if fst (getSyncedTime td (snd sc)) div 1000 = qrToken (fst sc)
              then qrLabel (fst sc)
              else qr_payload_spec pf p (fst (getSyncedTime td (snd sc))))"
    and "snd (updateAnimation pf p td ts sc) = (snd sc)\<lparr> reads := Suc (reads (snd sc)) \<rparr>"
    and "currentTime (fst (updateAnimation pf p td ts sc)) = fst (getSyncedTime td (snd sc))"
proof -
  have sc: "updateAnimation pf p td ts sc = updateAnimation pf p td ts (fst sc, snd sc)"
    by simp
  show "qrToken (fst (updateAnimation pf p td ts sc)) = fst (getSyncedTime td (snd sc)) div 1000"
    unfolding sc by (rule tick_qrToken [OF assms])
  show "qrEncodes (fst (updateAnimation pf p td ts sc))
           = (if fst (getSyncedTime td (snd sc)) div 1000 = qrToken (fst sc)
              then qrEncodes (fst sc) else Suc (qrEncodes (fst sc)))"
    unfolding sc
    using tick_qr_same [OF assms, of td "snd sc" "fst sc" pf ts]
      tick_qr_regen [OF assms, of td "snd sc" "fst sc" pf ts]
    by (simp add: qrView_def)
  show "qrLabel (fst (updateAnimation pf p td ts sc))
           = (if fst (getSyncedTime td (snd sc)) div 1000 = qrToken (fst sc)
              then qrLabel (fst sc)
              else qr_payload_spec pf p (fst (getSyncedTime td (snd sc))))"
    unfolding sc
    using tick_qr_same [OF assms, of td "snd sc" "fst sc" pf ts]
      tick_qr_regen [OF assms, of td "snd sc" "fst sc" pf ts]
    by (simp add: qrView_def)
  show "snd (updateAnimation pf p td ts sc) = (snd sc)\<lparr> reads := Suc (reads (snd sc)) \<rparr>"
    unfolding sc by (rule tick_clock)
  show "currentTime (fst (updateAnimation pf p td ts sc)) = fst (getSyncedTime td (snd sc))"
    unfolding sc by (rule tick_currentTime)
qed

lemma stepped_back_instants:
  "fst (getSyncedTime (initialTimeData 0) (exampleClock\<lparr> reads := 0 \<rparr>)) = 1704067200500"
  "fst (getSyncedTime ((initialTimeData 0)\<lparr> offset := - 1000 \<rparr>) (exampleClock\<lparr> reads := 1 \<rparr>))
     = 1704067199516"
  "fst (getSyncedTime (initialTimeData 0) (exampleClock\<lparr> reads := 2 \<rparr>)) = 1704067200532"
  by (simp_all add: getSyncedTime_fst exampleClock_def initialTimeData_def newDate_def)

text \<open>
  Claim C5, as stated: whenever two ticks of a sequence observe instants within the same
  integer second, the payload is not regenerated between them, never twice within one
  second.  The synchronized clock is the local clock plus the offset, and the offset
  changes when a sync completes.  Three ticks with the sync QR shown: the first at the
  instant 1704067200500; the second after the offset went from 0 to -1000, at the instant
  1704067199516; the third after the offset went back to 0, at the instant 1704067200532.
  The first and the third tick observe the second 1704067200, and the payload is
  regenerated at the second tick and again at the third: the encoder runs at each of the
  three ticks, twice for the second 1704067200.
\<close>

theorem qr_same_second_regenerated_twice_counterexample:
  "map (\<lambda>q. showSyncQr (fst q))
       [(exampleProps, initialTimeData 0, 1000),
        (exampleProps, (initialTimeData 0)\<lparr> offset := - 1000 \<rparr>, 1016),
        (exampleProps, initialTimeData 0, 1033)] = [True, True, True]
   \<and> map (\<lambda>t. t div 1000)
       (instants exampleClock
          [(exampleProps, initialTimeData 0, 1000),
           (exampleProps, (initialTimeData 0)\<lparr> offset := - 1000 \<rparr>, 1016),
           (exampleProps, initialTimeData 0, 1033)])
       = [1704067200, 1704067199, 1704067200]
   \<and> qrEncodes (fst (runTicks examplePlatform
          [(exampleProps, initialTimeData 0, 1000)] (exampleMounted, exampleClock))) = 2
   \<and> qrEncodes (fst (runTicks examplePlatform
          [(exampleProps, initialTimeData 0, 1000),
           (exampleProps, (initialTimeData 0)\<lparr> offset := - 1000 \<rparr>, 1016)]
          (exampleMounted, exampleClock))) = 3
   \<and> qrEncodes (fst (runTicks examplePlatform
          [(exampleProps, initialTimeData 0, 1000),
           (exampleProps, (initialTimeData 0)\<lparr> offset := - 1000 \<rparr>, 1016),
           (exampleProps, initialTimeData 0, 1033)]
          (exampleMounted, exampleClock))) = 4"
proof -
  let ?td = "initialTimeData 0"
  let ?lower = "(initialTimeData 0)\<lparr> offset := - 1000 \<rparr>"
  let ?sc1 = "updateAnimation examplePlatform exampleProps ?td 1000 (exampleMounted, exampleClock)"
  let ?sc2 = "updateAnimation examplePlatform exampleProps ?lower 1016 ?sc1"
  let ?sc3 = "updateAnimation examplePlatform exampleProps ?td 1033 ?sc2"
  note on = exampleProps_fields(5)
  have c0: "exampleClock = exampleClock\<lparr> reads := 0 \<rparr>"
    by (simp add: exampleClock_def)
  have c1: "snd ?sc1 = exampleClock\<lparr> reads := 1 \<rparr>"
    using tick_qr_pair(4) [OF on, of examplePlatform ?td 1000 "(exampleMounted, exampleClock)"]
    by (simp add: exampleClock_def)
  have c2: "snd ?sc2 = exampleClock\<lparr> reads := 2 \<rparr>"
    using tick_qr_pair(4) [OF on, of examplePlatform ?lower 1016 ?sc1]
    unfolding c1 by (simp add: exampleClock_def)
  have t1: "qrToken (fst ?sc1) = 1704067200" and e1: "qrEncodes (fst ?sc1) = 2"
    using tick_qr_pair(1,2) [OF on, of examplePlatform ?td 1000 "(exampleMounted, exampleClock)"]
    by (simp_all add: exampleClock_instant0 exampleMounted_fields)
  have t2: "qrToken (fst ?sc2) = 1704067199" and e2: "qrEncodes (fst ?sc2) = 3"
    using tick_qr_pair(1,2) [OF on, of examplePlatform ?lower 1016 ?sc1]
    unfolding c1 stepped_back_instants t1 e1 by simp_all
  have e3: "qrEncodes (fst ?sc3) = 4"
    using tick_qr_pair(2) [OF on, of examplePlatform ?td 1033 ?sc2]
    unfolding c2 stepped_back_instants t2 e2 by simp
  have inst: "instants exampleClock
          [(exampleProps, ?td, 1000), (exampleProps, ?lower, 1016), (exampleProps, ?td, 1033)]
       = [1704067200500, 1704067199516, 1704067200532]"
    by (simp add: getSyncedTime_def Date_now_def exampleClock_def initialTimeData_def newDate_def)
  show ?thesis
    unfolding inst using e1 e2 e3 on by simp
qed


section \<open>Properties of the ball\<close>

lemma radius_below: "0 < width p \<Longrightarrow> ballRadius p < width p - ballRadius p"
  by (simp add: ballRadius_def min_def)

lemma ballBlock_ball:
  "ballX (ballBlock p d s)
     = (if ballAdvance p d s \<ge> width p - ballRadius p then width p - ballRadius p
        else if ballAdvance p d s \<le> ballRadius p then ballRadius p
        else ballAdvance p d s)"
  "ballDirection (ballBlock p d s)
     = (if ballAdvance p d s \<ge> width p - ballRadius p then - 1
        else if ballAdvance p d s \<le> ballRadius p then 1
        else ballDirection s)"
  by (simp_all add: ballBlock_def ballAdvance_def Let_def)

lemma ballAdvance_cong:
  "ballX s2 = ballX s \<Longrightarrow> ballDirection s2 = ballDirection s \<Longrightarrow>
     ballAdvance p d s2 = ballAdvance p d s"
  by (simp add: ballAdvance_def)

lemma tick_ball_on:
  assumes "showBall p"
  shows "ballX (fst (updateAnimation pf p td ts (s, c)))
           = ballX (ballBlock p (deltaMs_of s ts) s)"
    and "ballDirection (fst (updateAnimation pf p td ts (s, c)))
           = ballDirection (ballBlock p (deltaMs_of s ts) s)"
proof -
  let ?s2 = "(fpsBlock ts (s\<lparr> currentTime := fst (getSyncedTime td c) \<rparr>))
                 \<lparr> spinnerFlashFrameMs := deltaMs_of s ts, lastFrameTime := ts \<rparr>"
  have adv: "ballAdvance p (deltaMs_of s ts) ?s2 = ballAdvance p (deltaMs_of s ts) s"
    by (rule ballAdvance_cong) (simp_all add: keeps)
  have dir: "ballDirection ?s2 = ballDirection s"
    by (simp add: keeps)
  have x: "ballX (ballBlock p (deltaMs_of s ts) ?s2) = ballX (ballBlock p (deltaMs_of s ts) s)"
    by (simp only: ballBlock_ball adv)
  have d: "ballDirection (ballBlock p (deltaMs_of s ts) ?s2)
             = ballDirection (ballBlock p (deltaMs_of s ts) s)"
    by (simp only: ballBlock_ball adv dir)
  show "ballX (fst (updateAnimation pf p td ts (s, c)))
           = ballX (ballBlock p (deltaMs_of s ts) s)"
    using assms by (simp add: tick_unfold keeps x)
  show "ballDirection (fst (updateAnimation pf p td ts (s, c)))
           = ballDirection (ballBlock p (deltaMs_of s ts) s)"
    using assms by (simp add: tick_unfold keeps d)
qed

lemma tick_ball_off:
  assumes "\<not> showBall p"
  shows "ballX (fst (updateAnimation pf p td ts (s, c))) = ballX s"
    and "ballDirection (fst (updateAnimation pf p td ts (s, c))) = ballDirection s"
  using assms by (simp_all add: tick_unfold keeps)

text \<open>The ball is between the bounds and its direction is one of the two.\<close>

lemma ballBlock_in_range:
  assumes "0 < width p" "ballDirection s = 1 \<or> ballDirection s = - 1"
  shows "ballRadius p \<le> ballX (ballBlock p d s)"
    and "ballX (ballBlock p d s) \<le> width p - ballRadius p"
    and "ballDirection (ballBlock p d s) = 1 \<or> ballDirection (ballBlock p d s) = - 1"
  using assms radius_below [OF assms(1)] by (auto simp: ballBlock_ball)

lemma tick_in_range:
  assumes "0 < width p"
    and "ballRadius p \<le> ballX s" "ballX s \<le> width p - ballRadius p"
    and "ballDirection s = 1 \<or> ballDirection s = - 1"
  shows "ballRadius p \<le> ballX (fst (updateAnimation pf p td ts (s, c)))
       \<and> ballX (fst (updateAnimation pf p td ts (s, c))) \<le> width p - ballRadius p
       \<and> (ballDirection (fst (updateAnimation pf p td ts (s, c))) = 1
          \<or> ballDirection (fst (updateAnimation pf p td ts (s, c))) = - 1)"
proof (cases "showBall p")
  case True
  show ?thesis
    unfolding tick_ball_on [OF True]
    using ballBlock_in_range [OF assms(1,4)] by blast
next
  case False
  show ?thesis
    unfolding tick_ball_off [OF False] using assms by blast
qed

lemma run_in_range:
  assumes "0 < width p"
    and "ballRadius p \<le> ballX s" "ballX s \<le> width p - ballRadius p"
    and "ballDirection s = 1 \<or> ballDirection s = - 1"
  shows "ballRadius p \<le> ballX (fst (runTicks pf (fixedProps p tts) (s, c)))
       \<and> ballX (fst (runTicks pf (fixedProps p tts) (s, c))) \<le> width p - ballRadius p
       \<and> (ballDirection (fst (runTicks pf (fixedProps p tts) (s, c))) = 1
          \<or> ballDirection (fst (runTicks pf (fixedProps p tts) (s, c))) = - 1)"
  using assms(2-)
proof (induction tts arbitrary: s c)
  case Nil
  then show ?case by (simp add: fixedProps_def)
next
  case (Cons a tts)
  obtain td ts where a: "a = (td, ts)" by (cases a) auto
  let ?s' = "fst (updateAnimation pf p td ts (s, c))"
  let ?c' = "snd (updateAnimation pf p td ts (s, c))"
  have step: "runTicks pf (fixedProps p (a # tts)) (s, c) = runTicks pf (fixedProps p tts) (?s', ?c')"
    by (simp add: fixedProps_def a)
  have inv: "ballRadius p \<le> ballX ?s' \<and> ballX ?s' \<le> width p - ballRadius p
       \<and> (ballDirection ?s' = 1 \<or> ballDirection ?s' = - 1)"
    by (rule tick_in_range [OF assms(1) Cons.prems])
  show ?case
    unfolding step using inv by (intro Cons.IH) simp_all
qed

lemma mounted_in_range:
  "ballX (onMount pf p (initialState now)) = ballRadius p"
  "ballDirection (onMount pf p (initialState now)) = 1"
  "lastFrameTime (onMount pf p (initialState now)) = 0"
  by (simp_all add: onMount_def initialState_def requestAnimationFrame_def Let_def
      split: prod.splits)



lemma advance_strict:
  assumes "0 < width p" "0 < d"
  shows "ballDirection s = 1 \<Longrightarrow> ballX s < ballAdvance p d s"
    and "ballDirection s = - 1 \<Longrightarrow> ballAdvance p d s < ballX s"
  using assms by (simp_all add: ballAdvance_def ballSpeed_def)

text \<open>
  Claim C3, amended.  For every canvas width W > 0 and after any finite sequence of ticks
  from the mounted state (where the ball is at its radius), whatever their frame deltas,
  the ball position lies within [ballRadius, W - ballRadius] and the direction is 1 or -1.
  In the next tick with the ball shown, the position is clamped exactly to a bound that the
  integrated position has reached or passed, and the direction changes at most once: it
  flips exactly when the ball was heading for that bound (direction 1 at the right bound,
  direction -1 at the left bound), and otherwise stays.  With a positive frame delta every
  contact with a bound is such a flip.  With a frame delta of zero a ball that rests on a
  bound is clamped to it again and keeps its direction.
\<close>

theorem ball_stays_in_bounds:
  assumes "0 < width p"
  shows "ballRadius p \<le> ballX (fst (runTicks pf (fixedProps p tts) (onMount pf p (initialState now), c)))
   \<and> ballX (fst (runTicks pf (fixedProps p tts) (onMount pf p (initialState now), c)))
        \<le> width p - ballRadius p
   \<and> (ballDirection (fst (runTicks pf (fixedProps p tts) (onMount pf p (initialState now), c))) = 1
       \<or> ballDirection (fst (runTicks pf (fixedProps p tts) (onMount pf p (initialState now), c))) = - 1)
   \<and> (showBall p \<longrightarrow>
        (let sc = runTicks pf (fixedProps p tts) (onMount pf p (initialState now), c);
             x = ballAdvance p (deltaMs_of (fst sc) ts) (fst sc);
             s' = fst (updateAnimation pf p td ts sc)
         in ballX s' = (if x \<ge> width p - ballRadius p then width p - ballRadius p
                        else if x \<le> ballRadius p then ballRadius p else x)
          \<and> ((ballDirection s' = - ballDirection (fst sc))
               = (ballDirection (fst sc) = 1 \<and> x \<ge> width p - ballRadius p
                  \<or> ballDirection (fst sc) = - 1 \<and> x \<le> ballRadius p))
          \<and> ((ballDirection s' = ballDirection (fst sc))
               = (\<not> (ballDirection (fst sc) = 1 \<and> x \<ge> width p - ballRadius p
                      \<or> ballDirection (fst sc) = - 1 \<and> x \<le> ballRadius p)))
          \<and> (0 < deltaMs_of (fst sc) ts \<and> (x \<ge> width p - ballRadius p \<or> x \<le> ballRadius p) \<longrightarrow>
                ballDirection s' = - ballDirection (fst sc))))"
proof -
  let ?sc = "runTicks pf (fixedProps p tts) (onMount pf p (initialState now), c)"
  let ?s = "fst ?sc"
  have inv: "ballRadius p \<le> ballX ?s \<and> ballX ?s \<le> width p - ballRadius p
       \<and> (ballDirection ?s = 1 \<or> ballDirection ?s = - 1)"
    by (rule run_in_range [OF assms]) (simp_all add: mounted_in_range radius_below [OF assms, THEN less_imp_le])
  have step: ?thesis if on: "showBall p" 
  proof -
    let ?x = "ballAdvance p (deltaMs_of ?s ts) ?s"
    let ?s' = "fst (updateAnimation pf p td ts ?sc)"
    have sc: "updateAnimation pf p td ts ?sc = updateAnimation pf p td ts (?s, snd ?sc)"
      by simp
    have x': "ballX ?s' = (if ?x \<ge> width p - ballRadius p then width p - ballRadius p
                        else if ?x \<le> ballRadius p then ballRadius p else ?x)"
      unfolding sc tick_ball_on [OF on] by (simp only: ballBlock_ball)
    have d': "ballDirection ?s' = (if ?x \<ge> width p - ballRadius p then - 1
                        else if ?x \<le> ballRadius p then 1 else ballDirection ?s)"
      unfolding sc tick_ball_on [OF on] by (simp only: ballBlock_ball)
    have flip: "(ballDirection ?s' = - ballDirection ?s)
               = (ballDirection ?s = 1 \<and> ?x \<ge> width p - ballRadius p
                  \<or> ballDirection ?s = - 1 \<and> ?x \<le> ballRadius p)"
      unfolding d' using inv radius_below [OF assms] by auto
    have keep: "(ballDirection ?s' = ballDirection ?s)
               = (\<not> (ballDirection ?s = 1 \<and> ?x \<ge> width p - ballRadius p
                  \<or> ballDirection ?s = - 1 \<and> ?x \<le> ballRadius p))"
      unfolding d' using inv radius_below [OF assms] by auto
    have pos: "ballDirection ?s' = - ballDirection ?s"
      if "0 < deltaMs_of ?s ts" "?x \<ge> width p - ballRadius p \<or> ?x \<le> ballRadius p"
      unfolding flip
      using that inv advance_strict [OF assms that(1), of ?s] by auto
    show ?thesis
      using inv x' flip keep pos by (simp add: Let_def)
  qed
  show ?thesis
  proof (cases "showBall p")
    case True
    then show ?thesis by (rule step)
  next
    case False
    then show ?thesis using inv by simp
  qed
qed


lemma tick_ball_pair:
  assumes "showBall p"
  shows "ballX (fst (updateAnimation pf p td ts sc))
           = ballX (ballBlock p (deltaMs_of (fst sc) ts) (fst sc))"
    and "ballDirection (fst (updateAnimation pf p td ts sc))
           = ballDirection (ballBlock p (deltaMs_of (fst sc) ts) (fst sc))"
    and "lastFrameTime (fst (updateAnimation pf p td ts sc)) = ts"
  using tick_ball_on [OF assms, of pf td ts "fst sc" "snd sc"]
    tick_lastFrameTime [of pf p td ts "fst sc" "snd sc"]
  by simp_all

lemma example_radius: "ballRadius exampleProps = 27"
  by (simp add: ballRadius_def exampleProps_fields)

lemma example_tick1:
  "ballX (fst (updateAnimation examplePlatform exampleProps (initialTimeData 0) 1000
                 (exampleMounted, exampleClock))) = 26877 / 625"
  "ballDirection (fst (updateAnimation examplePlatform exampleProps (initialTimeData 0) 1000
                 (exampleMounted, exampleClock))) = 1"
  "lastFrameTime (fst (updateAnimation examplePlatform exampleProps (initialTimeData 0) 1000
                 (exampleMounted, exampleClock))) = 1000"
  by (simp_all add: tick_ball_pair [OF exampleProps_fields(3)] ballBlock_ball ballAdvance_def
      deltaMs_of_def exampleMounted_fields ballSpeed_def example_radius exampleProps_fields)

lemma example_run2:
  "runTicks examplePlatform
     (fixedProps exampleProps [(initialTimeData 0, 1000), (initialTimeData 0, 3000)])
     (exampleMounted, exampleClock)
   = updateAnimation examplePlatform exampleProps (initialTimeData 0) 3000
       (updateAnimation examplePlatform exampleProps (initialTimeData 0) 1000
          (exampleMounted, exampleClock))"
  by (simp add: fixedProps_def)

lemma example_tick2:
  "ballX (fst (runTicks examplePlatform
     (fixedProps exampleProps [(initialTimeData 0, 1000), (initialTimeData 0, 3000)])
     (exampleMounted, exampleClock))) = 1893"
  "ballDirection (fst (runTicks examplePlatform
     (fixedProps exampleProps [(initialTimeData 0, 1000), (initialTimeData 0, 3000)])
     (exampleMounted, exampleClock))) = - 1"
  "lastFrameTime (fst (runTicks examplePlatform
     (fixedProps exampleProps [(initialTimeData 0, 1000), (initialTimeData 0, 3000)])
     (exampleMounted, exampleClock))) = 3000"
  unfolding example_run2
  using tick_ball_pair [OF exampleProps_fields(3), of examplePlatform "initialTimeData 0" 3000
      "updateAnimation examplePlatform exampleProps (initialTimeData 0) 1000
         (exampleMounted, exampleClock)"]
  by (simp_all add: ballBlock_ball ballAdvance_def deltaMs_of_def example_tick1 ballSpeed_def
      example_radius exampleProps_fields)

text \<open>
  Claim C3, as stated: with nonnegative frame deltas the direction flips exactly once for
  every contact with a bound within a tick.  On a canvas of 1920 by 1080 the ticks at the
  frame timestamps 1000, 3000 and 3000 have the deltas 16.67 (the first tick), 2000 and 0.
  The second tick clamps the ball to the right bound 1893 and turns it to -1.  In the third
  tick the integrated position is again 1893, the comparison with the right bound succeeds
  and the position is clamped to it, but the direction is -1 before and after: a contact
  without a flip.
\<close>

theorem ball_contact_without_flip_counterexample:
  "0 < width exampleProps
   \<and> sorted [1000, 3000, 3000 :: real]
   \<and> deltaMs_of (fst (runTicks examplePlatform
         (fixedProps exampleProps [(initialTimeData 0, 1000), (initialTimeData 0, 3000)])
         (exampleMounted, exampleClock))) 3000 = 0
   \<and> ballAdvance exampleProps 0 (fst (runTicks examplePlatform
         (fixedProps exampleProps [(initialTimeData 0, 1000), (initialTimeData 0, 3000)])
         (exampleMounted, exampleClock)))
        \<ge> width exampleProps - ballRadius exampleProps
   \<and> ballX (fst (runTicks examplePlatform
         (fixedProps exampleProps
            [(initialTimeData 0, 1000), (initialTimeData 0, 3000), (initialTimeData 0, 3000)])
         (exampleMounted, exampleClock))) = width exampleProps - ballRadius exampleProps
   \<and> ballDirection (fst (runTicks examplePlatform
         (fixedProps exampleProps
            [(initialTimeData 0, 1000), (initialTimeData 0, 3000), (initialTimeData 0, 3000)])
         (exampleMounted, exampleClock)))
       = ballDirection (fst (runTicks examplePlatform
         (fixedProps exampleProps [(initialTimeData 0, 1000), (initialTimeData 0, 3000)])
         (exampleMounted, exampleClock)))"
proof -
  let ?sc2 = "runTicks examplePlatform
         (fixedProps exampleProps [(initialTimeData 0, 1000), (initialTimeData 0, 3000)])
         (exampleMounted, exampleClock)"
  have run3: "runTicks examplePlatform
         (fixedProps exampleProps
            [(initialTimeData 0, 1000), (initialTimeData 0, 3000), (initialTimeData 0, 3000)])
         (exampleMounted, exampleClock)
       = updateAnimation examplePlatform exampleProps (initialTimeData 0) 3000 ?sc2"
    by (simp add: fixedProps_def)
  have delta: "deltaMs_of (fst ?sc2) 3000 = 0"
    by (simp add: deltaMs_of_def example_tick2)
  have adv: "ballAdvance exampleProps 0 (fst ?sc2) = 1893"
    by (simp add: ballAdvance_def example_tick2)
  note t3 = tick_ball_pair [OF exampleProps_fields(3), of examplePlatform "initialTimeData 0"
      3000 ?sc2]
  have x3: "ballX (fst (updateAnimation examplePlatform exampleProps (initialTimeData 0) 3000 ?sc2))
              = 1893"
    unfolding t3 by (simp add: ballBlock_ball delta adv example_radius exampleProps_fields)
  have d3: "ballDirection
              (fst (updateAnimation examplePlatform exampleProps (initialTimeData 0) 3000 ?sc2))
              = - 1"
    unfolding t3 by (simp add: ballBlock_ball delta adv example_radius exampleProps_fields)
  show ?thesis
    unfolding run3 x3 d3 delta adv
    by (simp add: example_tick2 example_radius exampleProps_fields)
qed

theorem ball_stays_in_bounds_witness:
  "0 < width exampleProps \<and> showBall exampleProps
   \<and> 0 < deltaMs_of (fst (runTicks examplePlatform
             (fixedProps exampleProps [(initialTimeData 0, 1000), (initialTimeData 0, 3000)])
             (exampleMounted, exampleClock))) 6000
   \<and> ballAdvance exampleProps 3000 (fst (runTicks examplePlatform
             (fixedProps exampleProps [(initialTimeData 0, 1000), (initialTimeData 0, 3000)])
             (exampleMounted, exampleClock))) \<le> ballRadius exampleProps
   \<and> ballX (fst (updateAnimation examplePlatform exampleProps (initialTimeData 0) 6000
        (runTicks examplePlatform
             (fixedProps exampleProps [(initialTimeData 0, 1000), (initialTimeData 0, 3000)])
             (exampleMounted, exampleClock)))) = 27
   \<and> ballDirection (fst (updateAnimation examplePlatform exampleProps (initialTimeData 0) 6000
        (runTicks examplePlatform
             (fixedProps exampleProps [(initialTimeData 0, 1000), (initialTimeData 0, 3000)])
             (exampleMounted, exampleClock)))) = 1"
proof -
  let ?sc2 = "runTicks examplePlatform
         (fixedProps exampleProps [(initialTimeData 0, 1000), (initialTimeData 0, 3000)])
         (exampleMounted, exampleClock)"
  have w: "0 < width exampleProps" by (simp add: exampleProps_fields)
  have delta: "deltaMs_of (fst ?sc2) 6000 = 3000"
    by (simp add: deltaMs_of_def example_tick2)
  have adv: "ballAdvance exampleProps 3000 (fst ?sc2) = - 987"
    by (simp add: ballAdvance_def example_tick2 ballSpeed_def exampleProps_fields)
  show ?thesis
    using ball_stays_in_bounds [OF w, of examplePlatform
        "[(initialTimeData 0, 1000), (initialTimeData 0, 3000)]" 1704067200000 exampleClock
        6000 "initialTimeData 0"]
    unfolding exampleMounted_def [symmetric]
    by (simp add: Let_def delta adv example_radius exampleProps_fields example_tick2)
qed



section \<open>One instant for each tick\<close>

lemma tick_same_instant:
  assumes "fst (getSyncedTime td2 c2) = fst (getSyncedTime td c)"
  shows "fst (updateAnimation pf p td2 ts (s, c2)) = fst (updateAnimation pf p td ts (s, c))"
  by (simp only: tick_unfold assms)

lemma timeRows_instant:
  "currentTime s1 = currentTime s2 \<Longrightarrow> timeRows pf p s1 = timeRows pf p s2"
  by (simp add: timeRows_def)

lemma example_displays:
  "getTimeDisplays examplePlatform exampleProps
      = [\<lparr> td_label = ''UTC'', getTime = Some, td_color = ''#22c55e'', isLocal = False \<rparr>]"
  by (simp add: getTimeDisplays_def exampleProps_def defaultProps_def)

lemma example_timecodes:
  "getTimecode (localTZA examplePlatform) 1704067200500 False = ''00:00:00:15''"
  "getTimecode (localTZA examplePlatform) 1704067200600 False = ''00:00:00:18''"
  by (simp_all add: getTimecode_utc timecode_spec_def twoDigits_def getUTCHours_def
      getUTCMinutes_def getUTCSeconds_def getUTCMilliseconds_def digitChar_def)

lemma payload_last:
  "last (qr_payload_spec pf p 1704067200500) = CHR ''5''"
  "last (qr_payload_spec pf p 1704067200600) = CHR ''8''"
  by (simp_all add: qr_payload_spec_def twoDigits_def digitChar_def)

text \<open>
  Claim C9, as stated: every time-derived quantity of a tick, the QR payload and its frame
  index among them, is a function of the single instant of that tick, so that all overlays
  of a frame show the same instant.  With the sync QR shown, the tick at the instant
  2024-01-01T00:00:00.500Z builds the payload, with the frame index 15.  The next tick, at
  00:00:00.600, is in the same second and leaves the payload alone: its time row shows
  \<^verbatim>\<open>00:00:00:18\<close> while the QR still carries the payload of the instant .500, whose last
  character is 5 where a payload of the instant .600 ends in 8.
\<close>

theorem qr_payload_older_than_time_row_counterexample:
  "showSyncQr exampleProps
   \<and> currentTime (fst (runTicks examplePlatform
        (fixedProps exampleProps [(initialTimeData 0, 1000), (initialTimeData 0, 1100)])
        (exampleMounted, \<lparr> readings = (\<lambda>k. 1704067200500 + 100 * int k), reads = 0 \<rparr>)))
       = 1704067200600
   \<and> timeRows examplePlatform exampleProps (fst (runTicks examplePlatform
        (fixedProps exampleProps [(initialTimeData 0, 1000), (initialTimeData 0, 1100)])
        (exampleMounted, \<lparr> readings = (\<lambda>k. 1704067200500 + 100 * int k), reads = 0 \<rparr>)))
       = [Some ''00:00:00:18'']
   \<and> qrLabel (fst (runTicks examplePlatform
        (fixedProps exampleProps [(initialTimeData 0, 1000), (initialTimeData 0, 1100)])
        (exampleMounted, \<lparr> readings = (\<lambda>k. 1704067200500 + 100 * int k), reads = 0 \<rparr>)))
       = qr_payload_spec examplePlatform exampleProps 1704067200500
   \<and> last (qrLabel (fst (runTicks examplePlatform
        (fixedProps exampleProps [(initialTimeData 0, 1000), (initialTimeData 0, 1100)])
        (exampleMounted, \<lparr> readings = (\<lambda>k. 1704067200500 + 100 * int k), reads = 0 \<rparr>))))
       = CHR ''5''
   \<and> last (qr_payload_spec examplePlatform exampleProps 1704067200600) = CHR ''8''"
proof -
  let ?clk = "\<lparr> readings = (\<lambda>k. 1704067200500 + 100 * int k), reads = 0 \<rparr>"
  let ?td = "initialTimeData 0"
  let ?sc1 = "updateAnimation examplePlatform exampleProps ?td 1000 (exampleMounted, ?clk)"
  let ?sc2 = "updateAnimation examplePlatform exampleProps ?td 1100 ?sc1"
  note on = exampleProps_fields(5)
  have run: "runTicks examplePlatform
        (fixedProps exampleProps [(?td, 1000), (?td, 1100)]) (exampleMounted, ?clk) = ?sc2"
    by (simp add: fixedProps_def)
  have i1: "fst (getSyncedTime ?td ?clk) = 1704067200500"
    by (simp add: getSyncedTime_fst initialTimeData_def newDate_def)
  have c1: "snd ?sc1 = \<lparr> readings = (\<lambda>k. 1704067200500 + 100 * int k), reads = 1 \<rparr>"
    using tick_qr_pair(4) [OF on, of examplePlatform ?td 1000 "(exampleMounted, ?clk)"]
    by simp
  have i2: "fst (getSyncedTime ?td \<lparr> readings = (\<lambda>k. 1704067200500 + 100 * int k), reads = 1 \<rparr>)
              = 1704067200600"
    by (simp add: getSyncedTime_fst initialTimeData_def newDate_def)
  have t1: "qrToken (fst ?sc1) = 1704067200"
    and l1: "qrLabel (fst ?sc1) = qr_payload_spec examplePlatform exampleProps 1704067200500"
    using tick_qr_pair(1,3) [OF on, of examplePlatform ?td 1000 "(exampleMounted, ?clk)"]
    by (simp_all add: i1 exampleMounted_fields)
  have now2: "currentTime (fst ?sc2) = 1704067200600"
    using tick_qr_pair(5) [OF on, of examplePlatform ?td 1100 ?sc1]
    unfolding c1 i2 by simp
  have l2: "qrLabel (fst ?sc2) = qr_payload_spec examplePlatform exampleProps 1704067200500"
    using tick_qr_pair(3) [OF on, of examplePlatform ?td 1100 ?sc1]
    unfolding c1 i2 t1 l1 by simp
  have rows: "timeRows examplePlatform exampleProps (fst ?sc2) = [Some ''00:00:00:18'']"
    by (simp add: timeRows_def now2 example_displays example_timecodes)
  show ?thesis
    unfolding run using on now2 rows l2 payload_last by simp
qed

text \<open>
  Claim C9, amended.  A tick reads the clock exactly once.  The instant that it stores is
  that one reading shifted by the offset, and the state after the tick depends on the clock
  and on the offset through that instant only: two runs of the tick from the same state
  with the same frame timestamp and the same instant give the same state, whatever the
  clock would return later.  The spinner phase and angle, the QR token and every timecode
  of the time rows are functions of the instant of the tick.  The QR payload, with its
  frame index, is a function of the instant of the tick only in a tick that regenerates
  it, the first one seen in a second; every other tick keeps the payload that is there, so
  within a second the QR shows an earlier instant than the time rows.
\<close>

theorem tick_reads_clock_once:
  "reads (snd (updateAnimation pf p td ts (s, c))) = Suc (reads c)
   \<and> readings (snd (updateAnimation pf p td ts (s, c))) = readings c
   \<and> currentTime (fst (updateAnimation pf p td ts (s, c)))
       = newDate (real_of_int (readings c (reads c)) + offset td)
   \<and> (fst (getSyncedTime td2 c2) = fst (getSyncedTime td c) \<longrightarrow>
        fst (updateAnimation pf p td2 ts (s, c2)) = fst (updateAnimation pf p td ts (s, c)))
   \<and> (showSpinner p \<longrightarrow>
        spinnerPhaseMs (fst (updateAnimation pf p td ts (s, c)))
          = real_of_int (currentTime (fst (updateAnimation pf p td ts (s, c))) mod 5000)
      \<and> spinnerAngle (fst (updateAnimation pf p td ts (s, c)))
          = (real_of_int (currentTime (fst (updateAnimation pf p td ts (s, c))) mod 5000) / 5000)
              * 360)
   \<and> (showSyncQr p \<longrightarrow>
        qrToken (fst (updateAnimation pf p td ts (s, c)))
          = currentTime (fst (updateAnimation pf p td ts (s, c))) div 1000
      \<and> qrLabel (fst (updateAnimation pf p td ts (s, c)))
          = (if currentTime (fst (updateAnimation pf p td ts (s, c))) div 1000 = qrToken s
             then qrLabel s
             else qr_payload_spec pf p (currentTime (fst (updateAnimation pf p td ts (s, c))))))
   \<and> timeRows pf p (fst (updateAnimation pf p td ts (s, c)))
       = map (\<lambda>display. map_option (\<lambda>date. getTimecode (localTZA pf) date (isLocal display))
                (getTime display (newDate (real_of_int (readings c (reads c)) + offset td))))
           (getTimeDisplays pf p)"
proof -
  let ?s' = "fst (updateAnimation pf p td ts (s, c))"
  have now: "currentTime ?s' = newDate (real_of_int (readings c (reads c)) + offset td)"
    by (simp add: tick_currentTime getSyncedTime_fst)
  have same: "fst (updateAnimation pf p td2 ts (s, c2)) = ?s'"
    if "fst (getSyncedTime td2 c2) = fst (getSyncedTime td c)"
    using that by (rule tick_same_instant)
  have spin: "spinnerPhaseMs ?s' = real_of_int (currentTime ?s' mod 5000)
      \<and> spinnerAngle ?s' = (real_of_int (currentTime ?s' mod 5000) / 5000) * 360"
    if "showSpinner p"
    by (simp add: tick_spinner [OF that] tick_currentTime)
  have qr: "qrToken ?s' = currentTime ?s' div 1000
      \<and> qrLabel ?s' = (if currentTime ?s' div 1000 = qrToken s then qrLabel s
                        else qr_payload_spec pf p (currentTime ?s'))"
    if "showSyncQr p"
    using tick_qr_pair(1,3) [OF that, of pf td ts "(s, c)"]
    by (simp add: tick_currentTime)
  have rows: "timeRows pf p ?s'
       = map (\<lambda>display. map_option (\<lambda>date. getTimecode (localTZA pf) date (isLocal display))
                (getTime display (newDate (real_of_int (readings c (reads c)) + offset td))))
           (getTimeDisplays pf p)"
    by (simp add: timeRows_def now)
  show ?thesis
    using now same spin qr rows by (simp add: tick_clock)
qed

theorem tick_reads_clock_once_witness:
  "fst (getSyncedTime ((initialTimeData 0)\<lparr> offset := 500 \<rparr>)
          \<lparr> readings = (\<lambda>k. 1704067200000 + 1000 * int k), reads = 0 \<rparr>)
     = fst (getSyncedTime (initialTimeData 0) exampleClock)
   \<and> showSpinner exampleProps \<and> showSyncQr exampleProps
   \<and> reads (snd (updateAnimation examplePlatform exampleProps (initialTimeData 0) 1000
                    (exampleMounted, exampleClock))) = 1
   \<and> currentTime (fst (updateAnimation examplePlatform exampleProps (initialTimeData 0) 1000
                         (exampleMounted, exampleClock))) = 1704067200500
   \<and> fst (updateAnimation examplePlatform exampleProps ((initialTimeData 0)\<lparr> offset := 500 \<rparr>) 1000
            (exampleMounted, \<lparr> readings = (\<lambda>k. 1704067200000 + 1000 * int k), reads = 0 \<rparr>))
       = fst (updateAnimation examplePlatform exampleProps (initialTimeData 0) 1000
                (exampleMounted, exampleClock))
   \<and> spinnerPhaseMs (fst (updateAnimation examplePlatform exampleProps (initialTimeData 0) 1000
                            (exampleMounted, exampleClock))) = 500
   \<and> qrToken (fst (updateAnimation examplePlatform exampleProps (initialTimeData 0) 1000
                     (exampleMounted, exampleClock))) = 1704067200
   \<and> qrLabel (fst (updateAnimation examplePlatform exampleProps (initialTimeData 0) 1000
                     (exampleMounted, exampleClock)))
       = qr_payload_spec examplePlatform exampleProps 1704067200500
   \<and> timeRows examplePlatform exampleProps
        (fst (updateAnimation examplePlatform exampleProps (initialTimeData 0) 1000
                (exampleMounted, exampleClock))) = [Some ''00:00:00:15'']"
proof -
  have first: "readings exampleClock (reads exampleClock) = 1704067200500"
    by (simp add: exampleClock_def)
  have now: "newDate (real_of_int 1704067200500 + offset (initialTimeData 0)) = 1704067200500"
    by (simp add: initialTimeData_def newDate_def)
  have other: "fst (getSyncedTime ((initialTimeData 0)\<lparr> offset := 500 \<rparr>)
          \<lparr> readings = (\<lambda>k. 1704067200000 + 1000 * int k), reads = 0 \<rparr>) = 1704067200500"
    by (simp add: getSyncedTime_fst newDate_def)
  show ?thesis
    using tick_reads_clock_once [of examplePlatform exampleProps "initialTimeData 0" 1000
        exampleMounted exampleClock "(initialTimeData 0)\<lparr> offset := 500 \<rparr>"
        "\<lparr> readings = (\<lambda>k. 1704067200000 + 1000 * int k), reads = 0 \<rparr>"]
    unfolding first now other exampleClock_instant0 example_displays
    by (simp add: exampleProps_fields exampleMounted_fields example_timecodes exampleClock_def)
qed

section \<open>Properties of the geometry at degenerate dimensions\<close>

lemma num_arith:
  "Num a + Num b = Num (a + b)"
  "Num a - Num b = Num (a - b)"
  "- Num a = Num (- a)"
  "Num a * Num b = Num (a * b)"
  "b \<noteq> 0 \<Longrightarrow> Num a / Num b = Num (a / b)"
  "Math_min (Num a) (Num b) = Num (min a b)"
  "Math_max (Num a) (Num b) = Num (max a b)"
  "isNum (Num a)"
  "nonPositive (Num a) = (a \<le> 0)"
  by (simp_all add: plus_jsnum_def minus_jsnum_def uminus_jsnum_def times_jsnum_def
      divide_jsnum_def Math_min_def Math_max_def isNum_def nonPositive_def)

lemma totalWidthUnits_js_eq: "totalWidthUnits_js = Num 8"
  by (simp add: totalWidthUnits_js_def pluGeRow_def num_arith)

lemma getPlugeX_js_eq: "getPlugeX_js p index = Num (getPlugeX p index)"
proof -
  have step: "foldl (\<lambda>sum item. sum + Num (seg_width item) * (Num w / Num 8)) (Num a) xs
      = Num (foldl (\<lambda>sum item. sum + seg_width item * (w / 8)) a xs)" for w a xs
    by (induction xs arbitrary: a) (simp_all add: num_arith)
  show ?thesis
    by (simp add: getPlugeX_js_def getPlugeX_def totalWidthUnits_js_eq totalWidthUnits_eq
        width_js_def step)
qed

lemma mainBarShapes_rects: "mainBarShapes p = map shapeOfRect (mainBarRects p)"
  by (simp add: mainBarShapes_def mainBarRects_def mainBars_def shapeOfRect_def width_js_def
      height_js_def num_arith upt_rec numeral_eq_Suc)

lemma castellationShapes_rects: "castellationShapes p = map shapeOfRect (castellationRects p)"
  by (simp add: castellationShapes_def castellationRects_def castellations_def shapeOfRect_def
      width_js_def height_js_def num_arith upt_rec numeral_eq_Suc)

lemma plugeShapes_rects: "plugeShapes p = map shapeOfRect (plugeRects p)"
proof -
  note x = getPlugeX_js_eq
  have u: "unitWidth_js p = Num (unitWidth p)"
    by (simp add: unitWidth_js_def unitWidth_def totalWidthUnits_js_eq totalWidthUnits_eq
        width_js_def num_arith)
  show ?thesis
    by (simp add: plugeShapes_def plugeRects_def pluGeRow_def shapeOfRect_def x u
        plugeY_js_def plugeY_def plugeHeight_js_def plugeHeight_def height_js_def num_arith
        upt_rec numeral_eq_Suc)
qed

lemma barRowShapes_rects: "barRowShapes p = map shapeOfRect (barRowRects p)"
  by (simp add: barRowShapes_def barRowRects_def mainBarShapes_rects castellationShapes_rects
      plugeShapes_rects)


lemmas dims = width_js_def height_js_def

lemmas sizes = shapeFinite_def shapeWidth_def shapeHeight_def shapeRadius_def isCircle_def
  isRect_def rectsOf_def rectsAndLines_def circlesOf_def

lemma shapeOfRect_sizes:
  "shapeFinite (shapeOfRect r)" "\<not> isCircle (shapeOfRect r)" "isRect (shapeOfRect r)"
  "shapeWidth (shapeOfRect r) = Num (rect_width r)"
  "shapeHeight (shapeOfRect r) = Num (rect_height r)"
  by (simp_all add: shapeOfRect_def sizes num_arith)

lemma bars_finite: "list_all shapeFinite (barRowShapes p)"
  by (simp add: barRowShapes_rects list_all_iff shapeOfRect_sizes)

lemma bars_straight:
  "rectsAndLines (barRowShapes p) = barRowShapes p" "rectsOf (barRowShapes p) = barRowShapes p"
  "circlesOf (barRowShapes p) = []"
  by (simp_all add: barRowShapes_rects rectsAndLines_def rectsOf_def circlesOf_def
      shapeOfRect_sizes filter_map comp_def)

lemma bars_widths: "map shapeWidth (barRowShapes p) = map (\<lambda>r. Num (rect_width r)) (barRowRects p)"
  by (simp add: barRowShapes_rects shapeOfRect_sizes comp_def)

lemma bars_heights: "map shapeHeight (barRowShapes p) = map (\<lambda>r. Num (rect_height r)) (barRowRects p)"
  by (simp add: barRowShapes_rects shapeOfRect_sizes comp_def)

lemma clip_background:
  "clipShapes p = [RectShape (Num 0) (Num 0) (Num (width p)) (Num (height p))]"
  "backgroundShapes p = [RectShape (Num 0) (Num 0) (Num (width p)) (Num (height p))]"
  by (simp_all add: clipShapes_def backgroundShapes_def dims)

lemma frame_eq:
  "frameShapes p =
     [RectShape (Num 1) (Num 1) (Num (width p - 2)) (Num (height p - 2)),
      LineShape (Num 0) (Num 0) (Num (width p)) (Num (height p)),
      LineShape (Num (width p)) (Num 0) (Num 0) (Num (height p)),
      CircleShape (Num (width p / 2)) (Num (height p / 2))
        (Num (min (width p) (height p) * (15 / 100)))]"
  by (simp add: frameShapes_def dims num_arith)

lemma ball_eq:
  "ballShapes p s =
     [CircleShape (Num (ballX s)) (Num (height p * (67 / 100) / 2))
        (Num (min (width p) (height p) * (25 / 1000)))]"
  by (simp add: ballShapes_def ballY_js_def ballRadius_js_def dims num_arith)

lemma qrCell_eq: "qrCell p = Num (max 2 (min (width p) (height p) * (65 / 10000)))"
  by (simp add: qrCell_def dims num_arith)

lemma qr_eq:
  "qrShapes p s =
     (let cell = max 2 (min (width p) (height p) * (65 / 10000));
          size = real (qrSize s) * cell;
          pad = cell * (11 / 10);
          panelHeight = size + pad * 2 + height p * (38 / 1000)
      in [RectShape (Num (width p * (2 / 100))) (Num ((height p - panelHeight) / 2))
            (Num (size + pad * 2)) (Num panelHeight),
          RectShape (Num (width p * (2 / 100) + pad)) (Num ((height p - panelHeight) / 2 + pad))
            (Num size) (Num size)])"
  by (simp add: qrShapes_def qrX_def qrY_def qrPanelWidth_def qrPanelHeight_def
      qrRenderSize_def qrPanelPadding_def qrLabelHeight_def qrCell_eq dims num_arith Let_def)

lemma spinner_values:
  "spinnerRadius p = Num (max (width p * (16 / 100)) (height p * (22 / 100)))"
  "spinnerStroke p = Num (max (15 / 10) (min (width p) (height p) * (55 / 10000)))"
  "spinnerX p = Num (width p * (5 / 10))"
  by (simp_all add: spinnerRadius_def spinnerStroke_def spinnerX_def dims num_arith)

lemma spinner_eq:
  "spinnerShapes p s =
     (let r = max (width p * (16 / 100)) (height p * (22 / 100));
          st = max (15 / 10) (min (width p) (height p) * (55 / 10000))
      in [CircleShape (Num 0) (Num 0) (Num r),
          CircleShape (Num 0) (Num 0) (Num (r + st * (125 / 100))),
          CircleShape (Num 0) (Num 0) (Num (max 1 (r - st * (125 / 100)))),
          CircleShape (Num 0) (Num 0) (Num r),
          CircleShape (Num 0) (Num 0) (Num r)]
         @ (if spinnerPhaseMs s < spinnerFlashFrameMs s
            then [LineShape (Num (- (width p * (5 / 10)))) (Num 0)
                    (Num (width p - width p * (5 / 10))) (Num 0)]
            else []))"
  by (simp add: spinnerShapes_def spinner_values dims num_arith Let_def)


lemma info_sizes:
  "boxWidth p = Num (width p * (28 / 100))"
  "imgBoxWidth p = Num (width p * (12 / 100))"
  "margin p = Num (height p * (2 / 100))"
  "gap p = Num (height p * (15 / 1000))"
  "textBoxHeight p pp = Num (if hasCustomText pp then height p * (5 / 100) else 0)"
  "imgBoxHeight p pp = Num (if hasCustomImage pp then height p * (12 / 100) else 0)"
  "infoBoxHeight pf p pp
     = Num (height p * (45 / 1000) * real (totalRows pf p pp) + height p * (25 / 1000))"
  by (simp_all add: boxWidth_def imgBoxWidth_def margin_def gap_def textBoxHeight_def
      imgBoxHeight_def infoBoxHeight_def rowHeight_def dims num_arith)

lemma totalStackHeight_num: "isNum (totalStackHeight pf p pp)"
  by (simp add: totalStackHeight_def info_sizes num_arith)

lemma stackStartY_num: "isNum (stackStartY pf p pp)"
proof -
  obtain t where t: "totalStackHeight pf p pp = Num t"
    using totalStackHeight_num [of pf p pp] by (cases "totalStackHeight pf p pp") (simp_all add: isNum_def)
  show ?thesis
    by (cases "vAlign pp") (simp_all add: stackStartY_def t info_sizes dims num_arith)
qed

lemma info_positions:
  "isNum (boxX p pp)" "isNum (imgBoxX p pp)" "isNum (textBoxY pf p pp)"
  "isNum (imgBoxY pf p pp)" "isNum (boxY pf p pp)"
proof -
  obtain y where y: "stackStartY pf p pp = Num y"
    using stackStartY_num [of pf p pp] by (cases "stackStartY pf p pp") (simp_all add: isNum_def)
  show "isNum (boxX p pp)"
    by (cases "hAlign pp") (simp_all add: boxX_def info_sizes dims num_arith)
  show "isNum (imgBoxX p pp)"
    by (cases "hAlign pp") (simp_all add: imgBoxX_def info_sizes dims num_arith)
  show "isNum (textBoxY pf p pp)"
    by (simp add: textBoxY_def y num_arith)
  show "isNum (imgBoxY pf p pp)"
    by (simp add: imgBoxY_def y info_sizes num_arith)
  show "isNum (boxY pf p pp)"
    by (simp add: boxY_def y info_sizes num_arith)
qed

lemma info_finite: "list_all shapeFinite (infoShapes pf p pp)"
  by (simp add: infoShapes_def shapeFinite_def info_positions) (simp add: info_sizes num_arith)

lemma info_straight:
  "rectsAndLines (infoShapes pf p pp) = infoShapes pf p pp"
  "rectsOf (infoShapes pf p pp) = infoShapes pf p pp"
  "circlesOf (infoShapes pf p pp) = []"
  by (simp_all add: infoShapes_def sizes)

lemma info_widths:
  "map shapeWidth (infoShapes pf p pp)
     = (if hasCustomText pp then [Num (width p * (28 / 100))] else [])
       @ (if hasCustomImage pp then [Num (width p * (12 / 100))] else [])
       @ [Num (width p * (28 / 100))]"
  by (simp add: infoShapes_def shapeWidth_def info_sizes)

lemma info_heights:
  "map shapeHeight (infoShapes pf p pp)
     = (if hasCustomText pp then [Num (height p * (5 / 100))] else [])
       @ (if hasCustomImage pp then [Num (height p * (12 / 100))] else [])
       @ [Num (height p * (45 / 1000) * real (totalRows pf p pp) + height p * (25 / 1000))]"
  by (simp add: infoShapes_def shapeHeight_def info_sizes)

lemma grid_eq:
  "gridShapes p =
     [RectShape (Num (width p * actionSafe)) (Num (height p * actionSafe))
        (Num (width p * (1 - 2 * actionSafe))) (Num (height p * (1 - 2 * actionSafe))),
      RectShape (Num (width p * titleSafe)) (Num (height p * titleSafe))
        (Num (width p * (1 - 2 * titleSafe))) (Num (height p * (1 - 2 * titleSafe))),
      LineShape (Num (width p * (5 / 10) - width p * (3 / 100))) (Num (height p * (5 / 10)))
        (Num (width p * (5 / 10) + width p * (3 / 100))) (Num (height p * (5 / 10))),
      LineShape (Num (width p * (5 / 10))) (Num (height p * (5 / 10) - height p * (3 / 100)))
        (Num (width p * (5 / 10))) (Num (height p * (5 / 10) + height p * (3 / 100))),
      CircleShape (Num (width p * (5 / 10))) (Num (height p * (5 / 10)))
        (Num (min (width p) (height p) * (2 / 100))),
      LineShape (Num (width p * actionSafe)) (Num (height p * actionSafe))
        (Num (width p * actionSafe)) (Num (height p * actionSafe + height p * (2 / 100))),
      LineShape (Num (width p * actionSafe)) (Num (height p * actionSafe))
        (Num (width p * actionSafe + width p * (2 / 100))) (Num (height p * actionSafe)),
      LineShape (Num (width p * actionSafe + width p * (1 - 2 * actionSafe)))
        (Num (height p * actionSafe))
        (Num (width p * actionSafe + width p * (1 - 2 * actionSafe)))
        (Num (height p * actionSafe + height p * (2 / 100))),
      LineShape (Num (width p * actionSafe + width p * (1 - 2 * actionSafe) - width p * (2 / 100)))
        (Num (height p * actionSafe))
        (Num (width p * actionSafe + width p * (1 - 2 * actionSafe)))
        (Num (height p * actionSafe)),
      LineShape (Num (width p * actionSafe))
        (Num (height p * actionSafe + height p * (1 - 2 * actionSafe) - height p * (2 / 100)))
        (Num (width p * actionSafe))
        (Num (height p * actionSafe + height p * (1 - 2 * actionSafe))),
      LineShape (Num (width p * actionSafe))
        (Num (height p * actionSafe + height p * (1 - 2 * actionSafe)))
        (Num (width p * actionSafe + width p * (2 / 100)))
        (Num (height p * actionSafe + height p * (1 - 2 * actionSafe))),
      LineShape (Num (width p * actionSafe + width p * (1 - 2 * actionSafe)))
        (Num (height p * actionSafe + height p * (1 - 2 * actionSafe) - height p * (2 / 100)))
        (Num (width p * actionSafe + width p * (1 - 2 * actionSafe)))
        (Num (height p * actionSafe + height p * (1 - 2 * actionSafe))),
      LineShape (Num (width p * actionSafe + width p * (1 - 2 * actionSafe) - width p * (2 / 100)))
        (Num (height p * actionSafe + height p * (1 - 2 * actionSafe)))
        (Num (width p * actionSafe + width p * (1 - 2 * actionSafe)))
        (Num (height p * actionSafe + height p * (1 - 2 * actionSafe)))]"
  by (simp add: gridShapes_def cornerShapes_def dims num_arith)

lemma groups_finite:
  "list_all shapeFinite (clipShapes p)" "list_all shapeFinite (backgroundShapes p)"
  "list_all shapeFinite (frameShapes p)" "list_all shapeFinite (ballShapes p s)"
  "list_all shapeFinite (qrShapes p s)" "list_all shapeFinite (spinnerShapes p s)"
  "list_all shapeFinite (gridShapes p)"
  by (simp_all add: clip_background frame_eq ball_eq qr_eq spinner_eq grid_eq Let_def
      shapeFinite_def num_arith)

lemma layout_finite: "list_all shapeFinite (layoutShapes pf p pp s)"
  by (simp add: layoutShapes_def groups_finite bars_finite info_finite)


lemma cell_floor:
  assumes "width p \<le> 0 \<or> height p \<le> 0"
  shows "max 2 (min (width p) (height p) * (65 / 10000)) = 2"
proof -
  have "min (width p) (height p) \<le> 0" using assms by auto
  then have "min (width p) (height p) * (65 / 10000) \<le> 0"
    by (simp add: mult_le_0_iff)
  then show ?thesis by simp
qed

lemma straight_append:
  "rectsAndLines (xs @ ys) = rectsAndLines xs @ rectsAndLines ys"
  "rectsOf (xs @ ys) = rectsOf xs @ rectsOf ys"
  "circlesOf (xs @ ys) = circlesOf xs @ circlesOf ys"
  "rectsAndLines [] = []" "rectsOf [] = []" "circlesOf [] = []"
  by (simp_all add: rectsAndLines_def rectsOf_def circlesOf_def)

lemma straight_if:
  "rectsAndLines (if b then xs else []) = (if b then rectsAndLines xs else [])"
  "rectsOf (if b then xs else []) = (if b then rectsOf xs else [])"
  "circlesOf (if b then xs else []) = (if b then circlesOf xs else [])"
  by (simp_all add: straight_append)

lemma map_if: "map f (if b then xs else []) = (if b then map f xs else [])"
  by simp

text \<open>The groups at width 0.\<close>

lemma widths_at_zero_groups:
  assumes "width p = 0"
  shows "map shapeWidth (rectsAndLines (clipShapes p)) = [Num 0]"
    and "map shapeWidth (rectsAndLines (backgroundShapes p)) = [Num 0]"
    and "map shapeWidth (rectsAndLines (barRowShapes p)) = replicate 22 (Num 1)"
    and "map shapeWidth (rectsAndLines (frameShapes p)) = [Num (- 2), Num 0, Num 0]"
    and "map shapeWidth (rectsAndLines (ballShapes p s)) = []"
    and "map shapeWidth (rectsAndLines (qrShapes p s))
           = [Num (2 * real (qrSize s) + 44 / 10), Num (2 * real (qrSize s))]"
    and "map shapeWidth (rectsAndLines (infoShapes pf p pp))
           = replicate (length (infoShapes pf p pp)) (Num 0)"
    and "map shapeWidth (rectsAndLines (spinnerShapes p s))
           = (if spinnerPhaseMs s < spinnerFlashFrameMs s then [Num 0] else [])"
    and "map shapeWidth (rectsAndLines (gridShapes p)) = replicate 12 (Num 0)"
proof -
  have cell: "max 2 (min (width p) (height p) * (65 / 10000)) = 2"
    by (rule cell_floor) (simp add: assms)
  show "map shapeWidth (rectsAndLines (clipShapes p)) = [Num 0]"
    and "map shapeWidth (rectsAndLines (backgroundShapes p)) = [Num 0]"
    by (simp_all add: clip_background sizes assms)
  have "map (\<lambda>r. Num (rect_width r)) (barRowRects p) = map Num (map rect_width (barRowRects p))"
    by simp
  then show "map shapeWidth (rectsAndLines (barRowShapes p)) = replicate 22 (Num 1)"
    by (simp only: bars_straight bars_widths zero_width_widths [OF assms]) simp
  show "map shapeWidth (rectsAndLines (frameShapes p)) = [Num (- 2), Num 0, Num 0]"
    by (simp add: frame_eq sizes assms num_arith)
  show "map shapeWidth (rectsAndLines (ballShapes p s)) = []"
    by (simp add: ball_eq sizes)
  show "map shapeWidth (rectsAndLines (qrShapes p s))
           = [Num (2 * real (qrSize s) + 44 / 10), Num (2 * real (qrSize s))]"
    unfolding qr_eq Let_def cell by (simp add: sizes)
  show "map shapeWidth (rectsAndLines (infoShapes pf p pp))
           = replicate (length (infoShapes pf p pp)) (Num 0)"
    unfolding info_straight info_widths by (simp add: infoShapes_def assms)
  show "map shapeWidth (rectsAndLines (spinnerShapes p s))
           = (if spinnerPhaseMs s < spinnerFlashFrameMs s then [Num 0] else [])"
    by (simp add: spinner_eq Let_def sizes assms num_arith)
  show "map shapeWidth (rectsAndLines (gridShapes p)) = replicate 12 (Num 0)"
    by (simp add: grid_eq sizes assms num_arith numeral_eq_Suc)
qed

lemma widths_at_zero:
  assumes "width p = 0"
  shows "map shapeWidth (rectsAndLines (layoutShapes pf p pp s))
     = [Num 0, Num 0] @ replicate 22 (Num 1)
       @ (if showFrame pp then [Num (- 2), Num 0, Num 0] else [])
       @ (if showSyncQr p
          then [Num (2 * real (qrSize s) + 44 / 10), Num (2 * real (qrSize s))] else [])
       @ replicate (length (infoShapes pf p pp)) (Num 0)
       @ (if showSpinner p \<and> spinnerPhaseMs s < spinnerFlashFrameMs s then [Num 0] else [])
       @ (if showGrid pp then replicate 12 (Num 0) else [])"
  unfolding layoutShapes_def straight_append straight_if map_append map_if
    widths_at_zero_groups [OF assms]
  by simp


text \<open>The groups at height 0.\<close>

lemma heights_at_zero_groups:
  assumes "height p = 0"
  shows "map shapeHeight (rectsAndLines (clipShapes p)) = [Num 0]"
    and "map shapeHeight (rectsAndLines (backgroundShapes p)) = [Num 0]"
    and "map shapeHeight (rectsAndLines (barRowShapes p)) = replicate 22 (Num 0)"
    and "map shapeHeight (rectsAndLines (frameShapes p)) = [Num (- 2), Num 0, Num 0]"
    and "map shapeHeight (rectsAndLines (ballShapes p s)) = []"
    and "map shapeHeight (rectsAndLines (qrShapes p s))
           = [Num (2 * real (qrSize s) + 44 / 10), Num (2 * real (qrSize s))]"
    and "map shapeHeight (rectsAndLines (infoShapes pf p pp))
           = replicate (length (infoShapes pf p pp)) (Num 0)"
    and "map shapeHeight (rectsAndLines (spinnerShapes p s))
           = (if spinnerPhaseMs s < spinnerFlashFrameMs s then [Num 0] else [])"
    and "map shapeHeight (rectsAndLines (gridShapes p)) = replicate 12 (Num 0)"
proof -
  have cell: "max 2 (min (width p) (height p) * (65 / 10000)) = 2"
    by (rule cell_floor) (simp add: assms)
  show "map shapeHeight (rectsAndLines (clipShapes p)) = [Num 0]"
    and "map shapeHeight (rectsAndLines (backgroundShapes p)) = [Num 0]"
    by (simp_all add: clip_background sizes assms)
  have "map (\<lambda>r. Num (rect_height r)) (barRowRects p) = map Num (map rect_height (barRowRects p))"
    by simp
  then show "map shapeHeight (rectsAndLines (barRowShapes p)) = replicate 22 (Num 0)"
    by (simp only: bars_straight bars_heights zero_height_heights [OF assms]) simp
  show "map shapeHeight (rectsAndLines (frameShapes p)) = [Num (- 2), Num 0, Num 0]"
    by (simp add: frame_eq sizes assms num_arith)
  show "map shapeHeight (rectsAndLines (ballShapes p s)) = []"
    by (simp add: ball_eq sizes)
  show "map shapeHeight (rectsAndLines (qrShapes p s))
           = [Num (2 * real (qrSize s) + 44 / 10), Num (2 * real (qrSize s))]"
    unfolding qr_eq Let_def cell by (simp add: sizes assms)
  show "map shapeHeight (rectsAndLines (infoShapes pf p pp))
           = replicate (length (infoShapes pf p pp)) (Num 0)"
    unfolding info_straight info_heights by (simp add: infoShapes_def assms)
  show "map shapeHeight (rectsAndLines (spinnerShapes p s))
           = (if spinnerPhaseMs s < spinnerFlashFrameMs s then [Num 0] else [])"
    by (simp add: spinner_eq Let_def sizes num_arith)
  show "map shapeHeight (rectsAndLines (gridShapes p)) = replicate 12 (Num 0)"
    by (simp add: grid_eq sizes assms num_arith numeral_eq_Suc)
qed

lemma heights_at_zero:
  assumes "height p = 0"
  shows "map shapeHeight (rectsAndLines (layoutShapes pf p pp s))
     = [Num 0, Num 0] @ replicate 22 (Num 0)
       @ (if showFrame pp then [Num (- 2), Num 0, Num 0] else [])
       @ (if showSyncQr p
          then [Num (2 * real (qrSize s) + 44 / 10), Num (2 * real (qrSize s))] else [])
       @ replicate (length (infoShapes pf p pp)) (Num 0)
       @ (if showSpinner p \<and> spinnerPhaseMs s < spinnerFlashFrameMs s then [Num 0] else [])
       @ (if showGrid pp then replicate 12 (Num 0) else [])"
  unfolding layoutShapes_def straight_append straight_if map_append map_if
    heights_at_zero_groups [OF assms]
  by simp

text \<open>The circles.\<close>

lemma circles_groups:
  "circlesOf (clipShapes p) = []" "circlesOf (backgroundShapes p) = []"
  "circlesOf (qrShapes p s) = []"
  "map shapeRadius (circlesOf (frameShapes p)) = [Num (min (width p) (height p) * (15 / 100))]"
  "map shapeRadius (circlesOf (ballShapes p s)) = [Num (min (width p) (height p) * (25 / 1000))]"
  "map shapeRadius (circlesOf (gridShapes p)) = [Num (min (width p) (height p) * (2 / 100))]"
  "map shapeRadius (circlesOf (spinnerShapes p s))
     = [Num (max (width p * (16 / 100)) (height p * (22 / 100))),
        Num (max (width p * (16 / 100)) (height p * (22 / 100))
             + max (15 / 10) (min (width p) (height p) * (55 / 10000)) * (125 / 100)),
        Num (max 1 (max (width p * (16 / 100)) (height p * (22 / 100))
             - max (15 / 10) (min (width p) (height p) * (55 / 10000)) * (125 / 100))),
        Num (max (width p * (16 / 100)) (height p * (22 / 100))),
        Num (max (width p * (16 / 100)) (height p * (22 / 100)))]"
  by (simp_all add: clip_background qr_eq frame_eq ball_eq grid_eq spinner_eq Let_def sizes)

lemma radii_at_zero:
  assumes "width p = 0" "height p = 0"
  shows "map shapeRadius (circlesOf (layoutShapes pf p pp s))
     = (if showFrame pp then [Num 0] else [])
       @ (if showBall p then [Num 0] else [])
       @ (if showSpinner p then [Num 0, Num (15 / 8), Num 1, Num 0, Num 0] else [])
       @ (if showGrid pp then [Num 0] else [])"
  unfolding layoutShapes_def straight_append straight_if map_append map_if
    circles_groups bars_straight info_straight
  by (simp add: assms)

lemma radii_non_positive:
  assumes "width p \<le> 0 \<or> height p \<le> 0"
  shows "list_all nonPositive
           (map shapeRadius (circlesOf (frameShapes p @ ballShapes p s @ gridShapes p)))"
proof -
  have "min (width p) (height p) \<le> 0" using assms by auto
  then show ?thesis
    unfolding straight_append map_append circles_groups
    by (simp add: num_arith mult_le_0_iff)
qed

lemma rect_widths_non_positive:
  assumes "width p \<le> 0"
  shows "list_all nonPositive
           (map shapeWidth (rectsOf (clipShapes p @ backgroundShapes p @ frameShapes p
              @ infoShapes pf p pp @ gridShapes p)))"
  unfolding straight_append map_append info_straight info_widths
  using assms
  by (simp add: clip_background frame_eq grid_eq sizes num_arith mult_le_0_iff actionSafe_def
      titleSafe_def)

lemma bar_heights: 
  "map rect_height (barRowRects p)
     = replicate 7 (height p * (67 / 100)) @ replicate 7 (height p * (8 / 100))
       @ replicate 8 (height p * (25 / 100))"
  by (simp add: barRowRects_def mainBarRects_def castellationRects_def plugeRects_def
      mainBars_def castellations_def pluGeRow_def plugeHeight_def upt_rec numeral_eq_Suc)

lemma rect_heights_non_positive:
  assumes "height p \<le> 0"
  shows "list_all nonPositive
           (map shapeHeight (rectsOf (clipShapes p @ backgroundShapes p @ barRowShapes p
              @ frameShapes p @ infoShapes pf p pp @ gridShapes p)))"
proof -
  have rows: "height p * (45 / 1000) * real (totalRows pf p pp) + height p * (25 / 1000) \<le> 0"
  proof -
    have "height p * (45 / 1000) * real (totalRows pf p pp) \<le> 0"
      using assms by (simp add: mult_le_0_iff)
    moreover have "height p * (25 / 1000) \<le> 0" using assms by simp
    ultimately show ?thesis by linarith
  qed
  have bars: "list_all nonPositive (map shapeHeight (barRowShapes p))"
  proof -
    have "map shapeHeight (barRowShapes p) = map Num (map rect_height (barRowRects p))"
      by (simp add: bars_heights)
    then show ?thesis
      unfolding bar_heights using assms by (simp add: list_all_iff num_arith)
  qed
  show ?thesis
    unfolding straight_append map_append info_straight info_heights bars_straight
    using assms rows bars
    by (simp add: clip_background frame_eq grid_eq sizes num_arith mult_le_0_iff actionSafe_def
        titleSafe_def)
qed

text \<open>Rendering.\<close>

lemma timeRows_dims: "timeRows pf (p\<lparr> width := w, height := h \<rparr>) s = timeRows pf p s"
  by (simp add: timeRows_def getTimeDisplays_def)

lemma render_dims:
  "isl (render pf (p\<lparr> width := w, height := h \<rparr>) pp s) = isl (render pf p pp s)"
  by (simp add: render_def timeRows_dims)

lemma render_no_remote:
  assumes "remoteTimezone p = None"
  shows "render pf p pp s = Inr (layoutShapes pf p pp s)"
proof -
  have "None \<notin> set (timeRows pf p s)"
    using assms by (auto simp: timeRows_def getTimeDisplays_def)
  then show ?thesis by (simp add: render_def)
qed


text \<open>
  Claim C1, as stated: for a degenerate canvas every emitted rectangle, line and circle has
  zero size, and the three bar rows emit no rectangle of nonzero width when the width is 0.
  The code has no guard for degenerate dimensions.  At width 0 and height 1080 each of the 22
  rectangles of the bar rows has width 1, the overlap that every one of them carries, and the
  first one is 723.6 high.  Other fixed parts stay as well when their overlay is shown: the
  frame border rectangle is -2 by 1078, the two rectangles of the sync QR are 62.4 and 58
  wide for a code of 29 modules, and the spinner ring has the radius 237.6.
\<close>

theorem degenerate_width_counterexample:
  "width (defaultProps 0 1080) = 0
   \<and> map rect_width (barRowRects (defaultProps 0 1080)) = replicate 22 1
   \<and> rect_height (hd (barRowRects (defaultProps 0 1080))) = 3618 / 5
   \<and> map shapeWidth (barRowShapes (defaultProps 0 1080)) = replicate 22 (Num 1)
   \<and> hd (frameShapes (defaultProps 0 1080)) = RectShape (Num 1) (Num 1) (Num (- 2)) (Num 1078)
   \<and> map shapeWidth (qrShapes (defaultProps 0 1080) (initialState 0)) = [Num (312 / 5), Num 58]
   \<and> spinnerRadius (defaultProps 0 1080) = Num (1188 / 5)"
proof -
  have w: "width (defaultProps 0 1080) = 0" and hh: "height (defaultProps 0 1080) = 1080"
    by (simp_all add: defaultProps_def)
  have h: "rect_height (hd (barRowRects (defaultProps 0 1080))) = 3618 / 5"
    by (simp add: barRowRects_def mainBarRects_def mainBars_def defaultProps_def)
  have bars: "map shapeWidth (barRowShapes (defaultProps 0 1080)) = replicate 22 (Num 1)"
    using widths_at_zero_groups(3) [OF w] by (simp add: bars_straight)
  have frame: "hd (frameShapes (defaultProps 0 1080))
                 = RectShape (Num 1) (Num 1) (Num (- 2)) (Num 1078)"
    by (simp add: frame_eq w hh)
  have qr: "map shapeWidth (qrShapes (defaultProps 0 1080) (initialState 0))
              = [Num (312 / 5), Num 58]"
    using widths_at_zero_groups(6) [OF w, of "initialState 0"]
    by (simp add: qr_eq Let_def sizes initialState_def)
  have spin: "spinnerRadius (defaultProps 0 1080) = Num (1188 / 5)"
    by (simp add: spinner_values w hh)
  show ?thesis using w h zero_width_widths [OF w] bars frame qr spin by simp
qed

text \<open>
  Claim C1, amended.  For every width and height, the degenerate ones (zero or negative)
  among them, no coordinate of a rectangle, a line or a circle of the frame is
  \<^verbatim>\<open>NaN\<close> or infinite: the geometry divides by nonzero constants only, the total of the
  PLUGE units among them.  Whether rendering throws does not depend on the dimensions: the
  one call that can throw is the conversion to a remote zone that the platform does not
  know, and without a remote zone nothing throws.  The set of primitives is not empty and
  not all of it has zero size: what is proportional to the width or to the height vanishes,
  and the fixed parts stay.  At width 0 every rectangle has width 0 and every line has the
  horizontal extent 0, except that each of the 22 rectangles of the three bar rows is at
  x = 0 and 1 wide (the overlap), the frame border rectangle is -2 wide and the two
  rectangles of the sync QR keep the width of the code, 2 * qrSize + 4.4 and 2 * qrSize.  At
  height 0 the same holds of the heights and the vertical extents, with the rectangles of the
  bar rows at y = 0 and 0 high.  At width 0 and height 0 every circle has the radius 0 except
  two rings of the spinner, of radius 1.875 and 1.  When the width or the height is at most
  0, the radii of the circles of the frame, the ball and the grid are at most 0; when the
  width (the height) is at most 0, so are the widths (the heights) of the rectangles of the
  clip path, the background, the frame, the info panel and the grid, and for the height also
  the heights of the bar rows.
\<close>

theorem degenerate_dimensions_layout:
  "list_all shapeFinite (layoutShapes pf p pp s)
   \<and> isl (render pf (p\<lparr> width := w, height := h \<rparr>) pp s) = isl (render pf p pp s)
   \<and> (remoteTimezone p = None \<longrightarrow> render pf p pp s = Inr (layoutShapes pf p pp s))
   \<and> barRowShapes p = map shapeOfRect (barRowRects p)
   \<and> (width p = 0 \<longrightarrow>
        map rect_x (barRowRects p) = replicate 22 0
      \<and> map shapeWidth (rectsAndLines (layoutShapes pf p pp s))
          = [Num 0, Num 0] @ replicate 22 (Num 1)
            @ (if showFrame pp then [Num (- 2), Num 0, Num 0] else [])
            @ (if showSyncQr p
               then [Num (2 * real (qrSize s) + 44 / 10), Num (2 * real (qrSize s))] else [])
            @ replicate (length (infoShapes pf p pp)) (Num 0)
            @ (if showSpinner p \<and> spinnerPhaseMs s < spinnerFlashFrameMs s then [Num 0] else [])
            @ (if showGrid pp then replicate 12 (Num 0) else []))
   \<and> (height p = 0 \<longrightarrow>
        map rect_y (barRowRects p) = replicate 22 0
      \<and> map shapeHeight (rectsAndLines (layoutShapes pf p pp s))
          = [Num 0, Num 0] @ replicate 22 (Num 0)
            @ (if showFrame pp then [Num (- 2), Num 0, Num 0] else [])
            @ (if showSyncQr p
               then [Num (2 * real (qrSize s) + 44 / 10), Num (2 * real (qrSize s))] else [])
            @ replicate (length (infoShapes pf p pp)) (Num 0)
            @ (if showSpinner p \<and> spinnerPhaseMs s < spinnerFlashFrameMs s then [Num 0] else [])
            @ (if showGrid pp then replicate 12 (Num 0) else []))
   \<and> (width p = 0 \<and> height p = 0 \<longrightarrow>
        map shapeRadius (circlesOf (layoutShapes pf p pp s))
          = (if showFrame pp then [Num 0] else [])
            @ (if showBall p then [Num 0] else [])
            @ (if showSpinner p then [Num 0, Num (15 / 8), Num 1, Num 0, Num 0] else [])
            @ (if showGrid pp then [Num 0] else []))
   \<and> (width p \<le> 0 \<or> height p \<le> 0 \<longrightarrow>
        list_all nonPositive
          (map shapeRadius (circlesOf (frameShapes p @ ballShapes p s @ gridShapes p))))
   \<and> (width p \<le> 0 \<longrightarrow>
        list_all nonPositive
          (map shapeWidth (rectsOf (clipShapes p @ backgroundShapes p @ frameShapes p
             @ infoShapes pf p pp @ gridShapes p))))
   \<and> (height p \<le> 0 \<longrightarrow>
        list_all nonPositive
          (map shapeHeight (rectsOf (clipShapes p @ backgroundShapes p @ barRowShapes p
             @ frameShapes p @ infoShapes pf p pp @ gridShapes p))))"
proof -
  note finite = layout_finite [where pf = pf and p = p and pp = pp and s = s]
  note dims = render_dims [where pf = pf and p = p and w = w and h = h and pp = pp and s = s]
  note norem = render_no_remote [where pf = pf and p = p and pp = pp and s = s]
  note bars = barRowShapes_rects [where p = p]
  note wx = zero_width_xs [where p = p]
  note ww = widths_at_zero [where pf = pf and p = p and pp = pp and s = s]
  note hy = zero_height_ys [where p = p]
  note hh = heights_at_zero [where pf = pf and p = p and pp = pp and s = s]
  note rz = radii_at_zero [where pf = pf and p = p and pp = pp and s = s]
  note rn = radii_non_positive [where p = p and s = s]
  note wn = rect_widths_non_positive [where pf = pf and p = p and pp = pp]
  note hn = rect_heights_non_positive [where pf = pf and p = p and pp = pp]
  show ?thesis
    using finite dims norem bars wx ww hy hh rz rn wn hn by blast
qed

lemma exampleMounted_overlays:
  "qrSize exampleMounted = 29" "spinnerPhaseMs exampleMounted = 0"
  "spinnerFlashFrameMs exampleMounted = 50 / 3"
  by (simp_all add: exampleMounted_def onMount_def initialState_def requestAnimationFrame_def
      generateSyncDataUrl_def examplePlatform_def Let_def)

lemma examplePanel_fields:
  "showGrid examplePanel" "showFrame examplePanel" "hasCustomText examplePanel"
  "\<not> hasCustomImage examplePanel"
  by (simp_all add: examplePanel_def hasCustomText_def hasCustomImage_def truthy_def)

lemma exampleProps_zero:
  "width (exampleProps\<lparr> width := 0, height := 0 \<rparr>) = 0"
  "height (exampleProps\<lparr> width := 0, height := 0 \<rparr>) = 0"
  "remoteTimezone (exampleProps\<lparr> width := 0, height := 0 \<rparr>) = None"
  "showBall (exampleProps\<lparr> width := 0, height := 0 \<rparr>)"
  "showSpinner (exampleProps\<lparr> width := 0, height := 0 \<rparr>)"
  "showSyncQr (exampleProps\<lparr> width := 0, height := 0 \<rparr>)"
  by (simp_all add: exampleProps_def defaultProps_def)

theorem degenerate_dimensions_layout_witness:
  "width (exampleProps\<lparr> width := 0, height := 0 \<rparr>) = 0
   \<and> height (exampleProps\<lparr> width := 0, height := 0 \<rparr>) = 0
   \<and> remoteTimezone (exampleProps\<lparr> width := 0, height := 0 \<rparr>) = None
   \<and> list_all shapeFinite
        (layoutShapes examplePlatform (exampleProps\<lparr> width := 0, height := 0 \<rparr>) examplePanel
           exampleMounted)
   \<and> render examplePlatform (exampleProps\<lparr> width := 0, height := 0 \<rparr>) examplePanel exampleMounted
       = Inr (layoutShapes examplePlatform (exampleProps\<lparr> width := 0, height := 0 \<rparr>)
                examplePanel exampleMounted)
   \<and> map shapeWidth (rectsAndLines
        (layoutShapes examplePlatform (exampleProps\<lparr> width := 0, height := 0 \<rparr>) examplePanel
           exampleMounted))
       = [Num 0, Num 0] @ replicate 22 (Num 1) @ [Num (- 2), Num 0, Num 0]
         @ [Num (312 / 5), Num 58] @ [Num 0, Num 0] @ [Num 0] @ replicate 12 (Num 0)
   \<and> map shapeHeight (rectsAndLines
        (layoutShapes examplePlatform (exampleProps\<lparr> width := 0, height := 0 \<rparr>) examplePanel
           exampleMounted))
       = [Num 0, Num 0] @ replicate 22 (Num 0) @ [Num (- 2), Num 0, Num 0]
         @ [Num (312 / 5), Num 58] @ [Num 0, Num 0] @ [Num 0] @ replicate 12 (Num 0)
   \<and> map shapeRadius (circlesOf
        (layoutShapes examplePlatform (exampleProps\<lparr> width := 0, height := 0 \<rparr>) examplePanel
           exampleMounted))
       = [Num 0, Num 0, Num 0, Num (15 / 8), Num 1, Num 0, Num 0, Num 0]"
proof -
  have len: "length (infoShapes examplePlatform (exampleProps\<lparr> width := 0, height := 0 \<rparr>)
                examplePanel) = 2"
    by (simp add: infoShapes_def examplePanel_fields)
  show ?thesis
    using degenerate_dimensions_layout [of examplePlatform
        "exampleProps\<lparr> width := 0, height := 0 \<rparr>" examplePanel exampleMounted 0 0]
    unfolding len
    by (simp add: exampleProps_zero examplePanel_fields exampleMounted_overlays numeral_eq_Suc)
qed

end
